theory Spec2Isabelle
  imports Complex_Main "HOL-Library.Char_ord" "HOL-Library.List_Lexorder"
begin

section \<open>Python strings and built-ins used by management/backup.py\<close>

text \<open>
  Strings are \<open>char list\<close>s, a character being a code point below 256 (Python's strings
  also hold the code points above). The helpers below are the few string operations of the Python
  standard library that \<^verbatim>\<open>management/backup.py\<close> calls: \<^verbatim>\<open>str.strip()\<close>,
  \<^verbatim>\<open>str.split()\<close>, \<^verbatim>\<open>str.split(sep)\<close>, \<^verbatim>\<open>str.startswith\<close>, \<^verbatim>\<open>int(str)\<close>,
  \<^verbatim>\<open>"%d" % n\<close>, \<^verbatim>\<open>round\<close> and \<^verbatim>\<open>os.path.join\<close>.
\<close>

definition is_space :: "char \<Rightarrow> bool" where
  \<comment> \<open>the code points below 256 for which \<^verbatim>\<open>str.isspace()\<close> holds; \<^verbatim>\<open>strip()\<close> and
      \<^verbatim>\<open>split()\<close> remove exactly these\<close>
  "is_space c = (c \<in> set [CHR '' '', CHR 0x09, CHR 0x0A, CHR 0x0B, CHR 0x0C, CHR 0x0D,
                           CHR 0x1C, CHR 0x1D, CHR 0x1E, CHR 0x1F, CHR 0x85, CHR 0xA0])"

definition strip :: "string \<Rightarrow> string" where
  "strip s = dropWhile is_space (rev (dropWhile is_space (rev s)))"

fun split_acc :: "string \<Rightarrow> string \<Rightarrow> string list" where
  "split_acc [] cur = (if cur = [] then [] else [rev cur])"
| "split_acc (c # cs) cur =
     (if is_space c then (if cur = [] then split_acc cs [] else rev cur # split_acc cs [])
      else split_acc cs (c # cur))"

definition split_ws :: "string \<Rightarrow> string list" where
  \<comment> \<open>\<^verbatim>\<open>s.split()\<close>: the maximal runs of non-whitespace characters\<close>
  "split_ws s = split_acc s []"

fun split_on :: "char \<Rightarrow> string \<Rightarrow> string \<Rightarrow> string list" where
  "split_on sep [] cur = [rev cur]"
| "split_on sep (c # cs) cur =
     (if c = sep then rev cur # split_on sep cs [] else split_on sep cs (c # cur))"

definition split_char :: "char \<Rightarrow> string \<Rightarrow> string list" where
  \<comment> \<open>\<^verbatim>\<open>s.split(sep)\<close> for a one-character separator; never empty\<close>
  "split_char sep s = split_on sep s []"

definition startswith :: "string \<Rightarrow> string \<Rightarrow> bool" where
  "startswith s p = (take (length p) s = p)"

definition path_join :: "string \<Rightarrow> string \<Rightarrow> string" where
  \<comment> \<open>\<^verbatim>\<open>os.path.join(a, b)\<close> on POSIX\<close>
  "path_join a b =
     (if startswith b ''/'' then b
      else if a = [] \<or> last a = CHR ''/'' then a @ b
      else a @ ''/'' @ b)"

definition digit_char :: "nat \<Rightarrow> char" where
  "digit_char n = ''0123456789'' ! (n mod 10)"

fun digits :: "nat \<Rightarrow> string" where
  "digits n = (if n < 10 then [digit_char n] else digits (n div 10) @ [digit_char n])"

declare digits.simps [simp del]

definition fmt_d :: "int \<Rightarrow> string" where
  \<comment> \<open>\<^verbatim>\<open>"%d" % n\<close> for an integer \<open>n\<close>\<close>
  "fmt_d n = (if n < 0 then CHR ''-'' # digits (nat (- n)) else digits (nat n))"

definition is_digit :: "char \<Rightarrow> bool" where
  "is_digit c = (c \<in> set ''0123456789'')"

definition digit_val :: "char \<Rightarrow> int" where
  "digit_val c = int (length (takeWhile (\<lambda>d. d \<noteq> c) ''0123456789''))"

fun no_double_underscore :: "string \<Rightarrow> bool" where
  "no_double_underscore (a # b # cs) =
     (\<not> (a = CHR ''_'' \<and> b = CHR ''_'') \<and> no_double_underscore (b # cs))"
| "no_double_underscore cs = True"

definition py_int :: "string \<Rightarrow> int option" where
  \<comment> \<open>\<^verbatim>\<open>int(s)\<close> on a token without whitespace: an optional sign, then decimal digits
      with single underscores allowed between digits; \<open>None\<close> is ValueError. Digits outside
      ASCII are not modelled.\<close>
  "py_int s =
     (let neg = (s \<noteq> [] \<and> hd s = CHR ''-'');
          body = (if s \<noteq> [] \<and> (hd s = CHR ''-'' \<or> hd s = CHR ''+'') then tl s else s)
      in if body \<noteq> [] \<and> is_digit (hd body) \<and> is_digit (last body)
            \<and> list_all (\<lambda>c. is_digit c \<or> c = CHR ''_'') body \<and> no_double_underscore body
         then (let v = foldl (\<lambda>acc c. 10 * acc + digit_val c) 0 (filter is_digit body)
               in Some (if neg then - v else v))
         else None)"

definition py_round :: "rat \<Rightarrow> int" where
  \<comment> \<open>\<^verbatim>\<open>round(x)\<close> of Python 3: to the nearest integer, a tie to the even one\<close>
  "py_round x =
     (let f = \<lfloor>x\<rfloor>; d = x - of_int f
      in if d < 1 / 2 then f else if 1 / 2 < d then f + 1
         else if even f then f else f + 1)"

subsection \<open>Floats\<close>

text \<open>
  A finite Python float is a rational number that IEEE 754 binary64 represents; \<open>rnd\<close>
  rounds a rational to the nearest such number with 53 significant bits, a tie to the even
  one, down to the subnormal numbers (multiples of \<open>2 powi -1074\<close>). \<open>fl\<close> is the result of
  an arithmetic operation whose exact result is \<open>x\<close>: the rounded number, or \<open>None\<close> for an
  infinity when the rounded number is \<open>2 powi 1024\<close> or more in magnitude.
\<close>

fun bits :: "nat \<Rightarrow> nat" where
  \<comment> \<open>the number of binary digits\<close>
  "bits n = (if n = 0 then 0 else Suc (bits (n div 2)))"

declare bits.simps [simp del]

definition expo :: "rat \<Rightarrow> int" where
  \<comment> \<open>for \<open>x \<noteq> 0\<close>, the exponent \<open>e\<close> with \<open>2 powi e \<le> \<bar>x\<bar> < 2 powi (e + 1)\<close>\<close>
  "expo x =
     (if 1 \<le> \<bar>x\<bar> then int (bits (nat \<lfloor>\<bar>x\<bar>\<rfloor>)) - 1
      else - int (bits (nat (\<lceil>1 / \<bar>x\<bar>\<rceil> - 1))))"

definition rnd :: "rat \<Rightarrow> rat" where
  "rnd x =
     (if x = 0 then 0
      else let k = max (expo x - 52) (- 1074)
           in of_int (py_round (x / 2 powi k)) * 2 powi k)"

definition fl :: "rat \<Rightarrow> rat option" where
  "fl x = (let r = rnd x in if 2 powi 1024 \<le> \<bar>r\<bar> then None else Some r)"

section \<open>Data model\<close>

text \<open>
  A value of the configuration document \<^verbatim>\<open>custom.yaml\<close>: the documented keys hold
  integers and strings. The document itself either fails to load, loads to something that is
  not a mapping, or loads to a mapping.
\<close>

datatype yval = YStr string | YInt int

type_synonym config = "string \<rightharpoonup> yval"

datatype yaml_doc = LoadError | NotMapping | Mapping config

text \<open>The exceptions the script can raise, as values.\<close>

datatype error =
    AlreadyRunning
  | IOError string
  | KeyError string
  | TypeError
  | ValueError
  | IndexError
  | AttributeError
  | ZeroDivisionError
  | OverflowError
  | PassphraseTooShort
  | CalledProcessError "string list"
  | FileNotFoundError string

text \<open>
  The result of \<^verbatim>\<open>dateutil.relativedelta.relativedelta(ref, date)\<close>: the calendar
  difference, normalised by the library into years, months, days, hours and minutes
  (and smaller units that the script never reads).
\<close>

record relativedelta =
  years :: int
  months :: int
  days :: int
  hours :: int
  minutes :: int

text \<open>One row of the backup listing, the dictionary built by \<^verbatim>\<open>parse_line\<close>. The key
  \<^verbatim>\<open>deleted_in\<close> is absent until the deletion estimate sets it.\<close>

record backup =
  date :: string
  date_str :: string
  date_delta :: string
  full :: bool
  size_bytes :: int
  deleted_in :: "string option"

record status =
  directory :: string
  encpwfile :: string
  tz :: string
  backups :: "backup list"

text \<open>
  Everything the script reads from outside itself. The date library (\<^verbatim>\<open>dateutil\<close>,
  \<^verbatim>\<open>datetime\<close>) and the helpers of \<^verbatim>\<open>utils\<close> are not part of the source file, so
  they are parameters: \<open>'dt\<close> is the type of time stamps, \<open>run_process\<close> tells for an
  argument list and an environment whether the subprocess exits with status 0 (and then its
  output) or not (\<open>None\<close>: \<^verbatim>\<open>utils.shell\<close> raises \<^verbatim>\<open>CalledProcessError\<close>). No
  argument list is used twice in one run, so a fixed answer per argument list is every
  behaviour of the subprocesses. \<open>lock_free\<close> tells whether \<^verbatim>\<open>utils.exclusive_process\<close>
  returns, \<open>initial_dirs\<close> are the directories that exist when the run starts, and
  \<open>secret_key_line\<close> is the first line of \<^verbatim>\<open>secret_key.txt\<close>. \<open>dt_less a b\<close> is the
  comparison \<^verbatim>\<open>a < b\<close> of two time stamps, \<open>None\<close> when it raises \<^verbatim>\<open>TypeError\<close> (one of
  them has a time zone and the other has none); \<open>dt_minus_days d n\<close> is
  \<^verbatim>\<open>d - datetime.timedelta(days=n)\<close>, \<open>None\<close> when it raises \<^verbatim>\<open>OverflowError\<close>.
\<close>

record 'dt world =
  storage_root :: string
  storage_user :: string
  lock_free :: bool
  custom_yaml :: yaml_doc
  secret_key_line :: "string option"
  run_process :: "string list \<Rightarrow> (string \<times> yval) list \<Rightarrow> string option"
  initial_dirs :: "string set"
  post_script_exists :: bool
  now :: 'dt
  tzname :: string
  dt_parse :: "string \<Rightarrow> 'dt option"
  dt_strftime :: "'dt \<Rightarrow> string"
  dt_less :: "'dt \<Rightarrow> 'dt \<Rightarrow> bool option"
  dt_relativedelta :: "'dt \<Rightarrow> 'dt \<Rightarrow> relativedelta"
  dt_minus_days :: "'dt \<Rightarrow> int \<Rightarrow> 'dt option"

type_synonym env = "(string \<times> yval) list"

text \<open>What a run does to the outside, in order.\<close>

datatype event =
    Shell "string list" env bool
  | Move string string
  | Rmtree string
  | LogInfo string
  | LogWarning string error
  | WaitForService int

text \<open>The state of a run: the events so far, and which of the directories that the script
  tests, moves and removes exist. Only the script's own moves and removals change them.\<close>

record state =
  trace :: "event list"
  dirs :: "string set"

type_synonym 'a action = "state \<Rightarrow> (error + 'a) \<times> state"

definition return :: "'a \<Rightarrow> 'a action" where
  "return x s = (Inr x, s)"

definition raise :: "error \<Rightarrow> 'a action" where
  "raise e s = (Inl e, s)"

definition bnd :: "'a action \<Rightarrow> ('a \<Rightarrow> 'b action) \<Rightarrow> 'b action" where
  "bnd m f s = (case m s of (Inl e, s') \<Rightarrow> (Inl e, s') | (Inr x, s') \<Rightarrow> f x s')"

definition andthen :: "unit action \<Rightarrow> 'b action \<Rightarrow> 'b action" where
  "andthen m k = bnd m (\<lambda>_. k)"

definition lift :: "error + 'a \<Rightarrow> 'a action" where
  "lift r s = (r, s)"

definition try_except :: "'a action \<Rightarrow> (error \<Rightarrow> 'a action) \<Rightarrow> 'a action" where
  \<comment> \<open>\<^verbatim>\<open>try: body except Exception as e: handler\<close>\<close>
  "try_except body handler s =
     (case body s of (Inl e, s') \<Rightarrow> handler e s' | (Inr x, s') \<Rightarrow> (Inr x, s'))"

definition try_finally :: "'a action \<Rightarrow> unit action \<Rightarrow> 'a action" where
  \<comment> \<open>\<^verbatim>\<open>try: body finally: fin\<close>: \<open>fin\<close> runs on every exit of \<open>body\<close>; an exception
      raised by \<open>fin\<close> replaces the outcome of \<open>body\<close>\<close>
  "try_finally body fin s =
     (case body s of (r, s') \<Rightarrow>
        (case fin s' of (Inl e, s'') \<Rightarrow> (Inl e, s'') | (Inr _, s'') \<Rightarrow> (r, s'')))"

definition emit :: "event \<Rightarrow> unit action" where
  "emit ev s = (Inr (), s\<lparr>trace := trace s @ [ev]\<rparr>)"

definition shell :: "'dt world \<Rightarrow> string list \<Rightarrow> env \<Rightarrow> string action" where
  \<comment> \<open>\<^verbatim>\<open>utils.shell(method, cmd_args, env)\<close> with \<^verbatim>\<open>check_call\<close> or \<^verbatim>\<open>check_output\<close>\<close>
  "shell w cmd_args e s =
     (case run_process w cmd_args e of
        None \<Rightarrow> (Inl (CalledProcessError cmd_args), s\<lparr>trace := trace s @ [Shell cmd_args e False]\<rparr>)
      | Some out \<Rightarrow> (Inr out, s\<lparr>trace := trace s @ [Shell cmd_args e True]\<rparr>))"

definition shell_call :: "'dt world \<Rightarrow> string list \<Rightarrow> env \<Rightarrow> unit action" where
  "shell_call w cmd_args e = bnd (shell w cmd_args e) (\<lambda>_. return ())"

definition isdir :: "string \<Rightarrow> state \<Rightarrow> bool" where
  "isdir p s = (p \<in> dirs s)"

definition shutil_move :: "string \<Rightarrow> string \<Rightarrow> unit action" where
  \<comment> \<open>\<^verbatim>\<open>shutil.move(src, dst)\<close> of a directory: afterwards \<open>src\<close> is gone and \<open>dst\<close> is a
      directory (when \<open>dst\<close> was one already, \<open>src\<close> is moved into it)\<close>
  "shutil_move src dst s =
     (Inr (), s\<lparr>trace := trace s @ [Move src dst], dirs := insert dst (dirs s - {src})\<rparr>)"

definition shutil_rmtree :: "string \<Rightarrow> unit action" where
  \<comment> \<open>\<^verbatim>\<open>shutil.rmtree(p)\<close> raises when \<open>p\<close> does not exist\<close>
  "shutil_rmtree p s =
     (if isdir p s
      then (Inr (), s\<lparr>trace := trace s @ [Rmtree p], dirs := dirs s - {p}\<rparr>)
      else (Inl (FileNotFoundError p), s))"

definition init_state :: "'dt world \<Rightarrow> state" where
  "init_state w = \<lparr>trace = [], dirs = initial_dirs w\<rparr>"

section \<open>Configuration, passphrase and subprocess environment\<close>

definition backup_root :: "'dt world \<Rightarrow> string" where
  "backup_root w = path_join (storage_root w) ''backup''"

definition default_config :: "'dt world \<Rightarrow> config" where
  "default_config w =
     [''min_age_in_days'' \<mapsto> YInt 3,
      ''target'' \<mapsto> YStr (''file://'' @ path_join (backup_root w) ''encrypted'')]"

definition get_backup_config :: "'dt world \<Rightarrow> config" where
  \<comment> \<open>lines 342-352: the merged dictionary is built, and \<^verbatim>\<open>config\<close> is returned\<close>
  "get_backup_config w =
     (case custom_yaml w of
        Mapping config \<Rightarrow>
          (let merged_config = default_config w ++ config
           in config)
      | _ \<Rightarrow> default_config w)"

definition get_passphrase :: "'dt world \<Rightarrow> error + string" where
  \<comment> \<open>lines 155-166; \<open>secret_key_line\<close> is what \<^verbatim>\<open>f.readline()\<close> returns, \<open>None\<close> when the
      file cannot be opened\<close>
  "get_passphrase w =
     (case secret_key_line w of
        None \<Rightarrow> Inl (IOError (path_join (backup_root w) ''secret_key.txt''))
      | Some l \<Rightarrow>
          (let passphrase = strip l
           in if length passphrase < 43 then Inl PassphraseTooShort else Inr passphrase))"

definition get_target_type :: "config \<Rightarrow> error + string" where
  \<comment> \<open>lines 179-181: \<^verbatim>\<open>config["target"].split(":")[0]\<close>\<close>
  "get_target_type config =
     (case config ''target'' of
        None \<Rightarrow> Inl (KeyError ''target'')
      | Some (YInt _) \<Rightarrow> Inl AttributeError
      | Some (YStr t) \<Rightarrow> Inr (hd (split_char CHR '':'' t)))"

definition get_env :: "'dt world \<Rightarrow> error + env" where
  \<comment> \<open>lines 168-177\<close>
  "get_env w =
     (let config = get_backup_config w
      in case get_passphrase w of
           Inl e \<Rightarrow> Inl e
         | Inr p \<Rightarrow>
             (let env = [(''PASSPHRASE'', YStr p)]
              in case get_target_type config of
                   Inl e \<Rightarrow> Inl e
                 | Inr t \<Rightarrow>
                     if t = ''s3''
                     then (case config ''target_user'' of
                             None \<Rightarrow> Inl (KeyError ''target_user'')
                           | Some u \<Rightarrow>
                               (case config ''target_pass'' of
                                  None \<Rightarrow> Inl (KeyError ''target_pass'')
                                | Some pw \<Rightarrow>
                                    Inr (env @ [(''AWS_ACCESS_KEY_ID'', u),
                                                (''AWS_SECRET_ACCESS_KEY'', pw)])))
                     else Inr env))"

section \<open>Status of the backups\<close>

definition reldate :: "'dt world \<Rightarrow> 'dt \<Rightarrow> 'dt \<Rightarrow> string \<Rightarrow> error + string" where
  \<comment> \<open>lines 45-53\<close>
  "reldate w d ref clip =
     (case dt_less w ref d of
        None \<Rightarrow> Inl TypeError
      | Some True \<Rightarrow> Inr clip
      | Some False \<Rightarrow>
          Inr (let rd = dt_relativedelta w ref d
           in if months rd > 1 then fmt_d (months rd) @ '' months, '' @ fmt_d (days rd) @ '' days''
              else if months rd = 1 then fmt_d (months rd) @ '' month, '' @ fmt_d (days rd) @ '' days''
              else if days rd \<ge> 7 then fmt_d (days rd) @ '' days''
              else if days rd > 1 then fmt_d (days rd) @ '' days, '' @ fmt_d (hours rd) @ '' hours''
              else if days rd = 1 then fmt_d (days rd) @ '' day, '' @ fmt_d (hours rd) @ '' hours''
              else fmt_d (hours rd) @ '' hours, '' @ fmt_d (minutes rd) @ '' minutes''))"

definition parse_line :: "'dt world \<Rightarrow> string \<Rightarrow> error + backup" where
  \<comment> \<open>lines 55-64; the entries of the dictionary are evaluated in the order written\<close>
  "parse_line w line =
     (let keys = split_ws (strip line)
      in if length keys < 2 then Inl IndexError
         else case dt_parse w (keys ! 1) of
                None \<Rightarrow> Inl ValueError
              | Some d \<Rightarrow>
                  (case reldate w d (now w) ''the future?'' of
                     Inl e \<Rightarrow> Inl e
                   | Inr delta \<Rightarrow>
                       if length keys < 3 then Inl IndexError
                       else case py_int (keys ! 2) of
                              None \<Rightarrow> Inl ValueError
                            | Some n \<Rightarrow>
                                Inr \<lparr>date = keys ! 1,
                                     date_str = dt_strftime w d,
                                     date_delta = delta,
                                     full = (keys ! 0 = ''full''),
                                     size_bytes = n * 250 * 1000000,
                                     deleted_in = None\<rparr>))"

fun dict_set :: "string \<Rightarrow> backup \<Rightarrow> (string \<times> backup) list \<Rightarrow> (string \<times> backup) list" where
  \<comment> \<open>\<^verbatim>\<open>backups[key] = value\<close> on an insertion-ordered dictionary\<close>
  "dict_set k v [] = [(k, v)]"
| "dict_set k v (p # ps) = (if fst p = k then (k, v) # ps else p # dict_set k v ps)"

fun parse_lines :: "'dt world \<Rightarrow> string list \<Rightarrow> (string \<times> backup) list \<Rightarrow>
    error + (string \<times> backup) list" where
  \<comment> \<open>lines 82-85\<close>
  "parse_lines w [] acc = Inr acc"
| "parse_lines w (line # rest) acc =
     (if startswith line '' full'' \<or> startswith line '' inc''
      then (case parse_line w line of
              Inl e \<Rightarrow> Inl e
            | Inr backup \<Rightarrow> parse_lines w rest (dict_set (date backup) backup acc))
      else parse_lines w rest acc)"

definition sorted_reverse :: "backup list \<Rightarrow> backup list" where
  \<comment> \<open>line 89: \<^verbatim>\<open>sorted(values, key = lambda b : b["date"], reverse=True)\<close>; the sort is stable,
      and with \<^verbatim>\<open>reverse=True\<close> rows with equal keys keep their order\<close>
  "sorted_reverse bs = rev (sort_key date (rev bs))"

fun head_increments :: "backup list \<Rightarrow> int \<Rightarrow> int \<Rightarrow> int \<times> int \<times> int option" where
  \<comment> \<open>lines 93-101: (incremental_count, incremental_size, first_full_size)\<close>
  "head_increments [] incremental_count incremental_size =
     (incremental_count, incremental_size, None)"
| "head_increments (bak # rest) incremental_count incremental_size =
     (if full bak then (incremental_count, incremental_size, Some (size_bytes bak))
      else head_increments rest (incremental_count + 1) (incremental_size + size_bytes bak))"

text \<open>
  The arithmetic of lines 110 and 149 is in floats. An integer operand of a float operation
  is converted first, which raises \<^verbatim>\<open>OverflowError\<close> when it is too large; the quotient of
  two integers is the rounded exact quotient; every float operation rounds its exact result.
  An infinite intermediate result stays infinite in the operations that follow it here
  (a division by a finite float and two additions of finite floats), and \<^verbatim>\<open>round\<close> of an
  infinity raises \<^verbatim>\<open>OverflowError\<close>. Python compares an integer with a float by value.
\<close>

definition float_of_int :: "int \<Rightarrow> error + rat" where
  "float_of_int n = (case fl (of_int n) of None \<Rightarrow> Inl OverflowError | Some a \<Rightarrow> Inr a)"

definition half_of :: "int \<Rightarrow> error + rat" where
  \<comment> \<open>\<^verbatim>\<open>.5 * n\<close> for an integer \<open>n\<close>; the product of a finite float with \<^verbatim>\<open>.5\<close> is finite\<close>
  "half_of n = (case float_of_int n of Inl e \<Rightarrow> Inl e | Inr a \<Rightarrow> Inr (rnd (1 / 2 * a)))"

definition int_div :: "int \<Rightarrow> int \<Rightarrow> error + rat" where
  \<comment> \<open>\<^verbatim>\<open>a / b\<close> for integers\<close>
  "int_div a b =
     (if b = 0 then Inl ZeroDivisionError
      else case fl (of_int a / of_int b) of None \<Rightarrow> Inl OverflowError | Some q \<Rightarrow> Inr q)"

definition f_div :: "rat option \<Rightarrow> rat \<Rightarrow> rat option" where
  \<comment> \<open>a float, possibly infinite, divided by a finite float other than zero\<close>
  "f_div a b = (case a of None \<Rightarrow> None | Some x \<Rightarrow> fl (x / b))"

definition f_add :: "rat option \<Rightarrow> rat \<Rightarrow> rat option" where
  \<comment> \<open>a float, possibly infinite, plus a finite float\<close>
  "f_add a b = (case a of None \<Rightarrow> None | Some x \<Rightarrow> fl (x + b))"

definition min_age :: "config \<Rightarrow> error + int" where
  \<comment> \<open>\<^verbatim>\<open>config["min_age_in_days"]\<close> used as a number\<close>
  "min_age config =
     (case config ''min_age_in_days'' of
        None \<Rightarrow> Inl (KeyError ''min_age_in_days'')
      | Some (YStr _) \<Rightarrow> Inl TypeError
      | Some (YInt n) \<Rightarrow> Inr n)"

definition predict_deleted_in :: "config \<Rightarrow> int \<Rightarrow> int \<Rightarrow> int option \<Rightarrow> error + string option" where
  \<comment> \<open>lines 108-110: \<^verbatim>\<open>config["min_age_in_days"]\<close> is looked up first, then the quotient
      is computed, then the sums\<close>
  "predict_deleted_in config incremental_count incremental_size first_full_size =
     (case first_full_size of
        None \<Rightarrow> Inr None
      | Some ffs \<Rightarrow>
          if incremental_count > 0
          then (case config ''min_age_in_days'' of
                  None \<Rightarrow> Inl (KeyError ''min_age_in_days'')
                | Some v \<Rightarrow>
           (case half_of ffs of
              Inl e \<Rightarrow> Inl e
            | Inr h \<Rightarrow>
           (case float_of_int incremental_size of
              Inl e \<Rightarrow> Inl e
            | Inr b \<Rightarrow>
           (case int_div incremental_size incremental_count of
              Inl e \<Rightarrow> Inl e
            | Inr dv \<Rightarrow>
                if dv = 0 then Inl ZeroDivisionError
                else (case v of
                        YStr _ \<Rightarrow> Inl TypeError
                      | YInt m \<Rightarrow>
                          (case float_of_int m of
                             Inl e \<Rightarrow> Inl e
                           | Inr c \<Rightarrow>
                               (case f_add (f_add (f_div (fl (h - b)) dv) c) (1 / 2) of
                                  None \<Rightarrow> Inl OverflowError
                                | Some t \<Rightarrow>
                                    Inr (Some (''approx. '' @ fmt_d (py_round t)
                                                 @ '' days'')))))))))
          else Inr None)"

definition truthy :: "string option \<Rightarrow> bool" where
  \<comment> \<open>the truth value of \<^verbatim>\<open>deleted_in\<close>: neither \<^verbatim>\<open>None\<close> nor the empty string\<close>
  "truthy x = (case x of None \<Rightarrow> False | Some t \<Rightarrow> t \<noteq> [])"

fun mark_deleted :: "'dt world \<Rightarrow> 'dt \<Rightarrow> bool \<Rightarrow> string option \<Rightarrow> backup list \<Rightarrow>
    error + backup list" where
  \<comment> \<open>lines 113-127; \<open>cur\<close> is the variable \<^verbatim>\<open>deleted_in\<close>\<close>
  "mark_deleted w days_ago saw_full cur [] = Inr []"
| "mark_deleted w days_ago saw_full cur (bak # rest) =
     (let bak1 = (if truthy cur then bak\<lparr>deleted_in := cur\<rparr> else bak)
      in if full bak1
         then (case mark_deleted w days_ago True None rest of
                 Inl e \<Rightarrow> Inl e | Inr r \<Rightarrow> Inr (bak1 # r))
         else if saw_full \<and> \<not> truthy cur
         then (case dt_parse w (date bak1) of
                 None \<Rightarrow> Inl ValueError
               | Some d \<Rightarrow>
                   (case reldate w days_ago d ''on next daily backup'' of
                      Inl e \<Rightarrow> Inl e
                    | Inr t \<Rightarrow>
                        (case mark_deleted w days_ago saw_full (Some t) rest of
                           Inl e \<Rightarrow> Inl e
                         | Inr r \<Rightarrow> Inr (bak1\<lparr>deleted_in := Some t\<rparr> # r))))
         else (case mark_deleted w days_ago saw_full cur rest of
                 Inl e \<Rightarrow> Inl e | Inr r \<Rightarrow> Inr (bak1 # r)))"

definition annotate :: "'dt world \<Rightarrow> config \<Rightarrow> backup list \<Rightarrow> error + backup list" where
  \<comment> \<open>lines 87-127: sort the rows, estimate, and mark each row\<close>
  "annotate w config rows =
     (let bs = sorted_reverse rows
      in case head_increments bs 0 0 of
           (incremental_count, incremental_size, first_full_size) \<Rightarrow>
             (case predict_deleted_in config incremental_count incremental_size first_full_size of
                Inl e \<Rightarrow> Inl e
              | Inr est \<Rightarrow>
                  (case min_age config of
                     Inl e \<Rightarrow> Inl e
                   | Inr m \<Rightarrow>
                       (case dt_minus_days w (now w) m of
                          None \<Rightarrow> Inl OverflowError
                        | Some days_ago \<Rightarrow> mark_deleted w days_ago False est bs))))"

definition status_cmd :: "'dt world \<Rightarrow> string \<Rightarrow> string list" where
  \<comment> \<open>the argument list of lines 67-75\<close>
  "status_cmd w target =
     [''/usr/bin/duplicity'', ''collection-status'',
      ''--archive-dir'', path_join (backup_root w) ''cache'',
      ''--log-file'', path_join (backup_root w) ''duplicity_status'',
      ''--gpg-options'', ''--cipher-algo=AES256'',
      ''--log-fd'', ''1'',
      target]"

definition target_arg :: "config \<Rightarrow> error + yval" where
  \<comment> \<open>\<^verbatim>\<open>config["target"]\<close> as an element of an argument list\<close>
  "target_arg config =
     (case config ''target'' of None \<Rightarrow> Inl (KeyError ''target'') | Some v \<Rightarrow> Inr v)"

definition arg_str :: "yval \<Rightarrow> error + string" where
  \<comment> \<open>a subprocess argument must be a string\<close>
  "arg_str v = (case v of YStr t \<Rightarrow> Inr t | YInt _ \<Rightarrow> Inl TypeError)"

definition backup_status :: "'dt world \<Rightarrow> status action" where
  \<comment> \<open>lines 34-134; the argument list is evaluated before \<^verbatim>\<open>get_env()\<close>, both before the
      subprocess starts\<close>
  "backup_status w =
     (let config = get_backup_config w
      in bnd (lift (target_arg config)) (\<lambda>tv.
         bnd (lift (get_env w)) (\<lambda>e.
         bnd (lift (arg_str tv)) (\<lambda>target.
         bnd (shell w (status_cmd w target) e) (\<lambda>collection_status.
         bnd (lift (parse_lines w (split_char CHR 0x0A collection_status) [])) (\<lambda>d.
         bnd (lift (annotate w config (map snd d))) (\<lambda>bs.
         return \<lparr>directory = path_join (backup_root w) ''encrypted'',
                 encpwfile = path_join (backup_root w) ''secret_key.txt'',
                 tz = tzname w,
                 backups = bs\<rparr>)))))))"

fun force_full_loop :: "backup list \<Rightarrow> int \<Rightarrow> error + bool" where
  \<comment> \<open>lines 140-153: the \<^verbatim>\<open>for\<close>/\<^verbatim>\<open>else\<close> loop with its accumulator \<^verbatim>\<open>inc_size\<close>;
      \<^verbatim>\<open>inc_size > .5*bak["size"]\<close> compares an integer with a float by value\<close>
  "force_full_loop [] inc_size = Inr True"
| "force_full_loop (bak # rest) inc_size =
     (if \<not> full bak then force_full_loop rest (inc_size + size_bytes bak)
      else case half_of (size_bytes bak) of
             Inl e \<Rightarrow> Inl e
           | Inr h \<Rightarrow> Inr (of_int inc_size > h))"

definition should_force_full :: "'dt world \<Rightarrow> bool action" where
  \<comment> \<open>lines 136-153\<close>
  "should_force_full w =
     bnd (backup_status w) (\<lambda>st. lift (force_full_loop (backups st) 0))"

section \<open>The backup run\<close>

definition old_backup_dir :: "'dt world \<Rightarrow> string" where
  "old_backup_dir w = path_join (backup_root w) ''duplicity''"

definition migrated_unencrypted_backup_dir :: "'dt world \<Rightarrow> string" where
  "migrated_unencrypted_backup_dir w = path_join (storage_root w) ''migrated_unencrypted_backup''"

definition backup_dir :: "'dt world \<Rightarrow> string" where
  "backup_dir w = path_join (backup_root w) ''encrypted''"

definition backup_cache_dir :: "'dt world \<Rightarrow> string" where
  "backup_cache_dir w = path_join (backup_root w) ''cache''"

definition exclusive_process :: "'dt world \<Rightarrow> unit action" where
  \<comment> \<open>\<^verbatim>\<open>utils.exclusive_process("backup")\<close>: returns when the lock is free, ends the
      process otherwise\<close>
  "exclusive_process w = (if lock_free w then return () else raise AlreadyRunning)"

definition migrate_old_backup :: "'dt world \<Rightarrow> unit action" where
  \<comment> \<open>lines 203-215\<close>
  "migrate_old_backup w s =
     (if isdir (old_backup_dir w) s
      then andthen (shutil_move (old_backup_dir w) (migrated_unencrypted_backup_dir w))
                   (shutil_rmtree (backup_dir w)) s
      else return () s)"

definition service_cmd :: "string \<Rightarrow> string \<Rightarrow> string list" where
  "service_cmd name verb = [''/usr/sbin/service'', name, verb]"

definition stop_services :: "'dt world \<Rightarrow> unit action" where
  \<comment> \<open>lines 223-225\<close>
  "stop_services w =
     andthen (shell_call w (service_cmd ''dovecot'' ''stop'') [])
             (shell_call w (service_cmd ''postfix'' ''stop'') [])"

definition start_services :: "'dt world \<Rightarrow> unit action" where
  \<comment> \<open>lines 248-250, the body of \<^verbatim>\<open>finally\<close>\<close>
  "start_services w =
     andthen (shell_call w (service_cmd ''dovecot'' ''start'') [])
             (shell_call w (service_cmd ''postfix'' ''start'') [])"

definition backup_cmd :: "'dt world \<Rightarrow> bool \<Rightarrow> string \<Rightarrow> string list" where
  \<comment> \<open>the argument list of lines 231-242\<close>
  "backup_cmd w full_backup target =
     [''/usr/bin/duplicity'',
      (if full_backup then ''full'' else ''incr''),
      ''--archive-dir'', backup_cache_dir w,
      ''--asynchronous-upload'',
      ''--exclude'', backup_root w,
      ''--volsize'', ''250'',
      ''--gpg-options'', ''--cipher-algo=AES256'',
      storage_root w,
      target,
      ''--allow-source-mismatch'']"

definition run_duplicity :: "'dt world \<Rightarrow> config \<Rightarrow> bool \<Rightarrow> unit action" where
  \<comment> \<open>lines 231-244, the body of \<^verbatim>\<open>try\<close>\<close>
  "run_duplicity w config full_backup =
     bnd (lift (target_arg config)) (\<lambda>tv.
     bnd (lift (get_env w)) (\<lambda>e.
     bnd (lift (arg_str tv)) (\<lambda>target.
     andthen (shell_call w (backup_cmd w full_backup target) e)
             (emit (LogInfo ''Backup successful'')))))"

definition snapshot_and_restart :: "'dt world \<Rightarrow> config \<Rightarrow> bool \<Rightarrow> unit action" where
  \<comment> \<open>lines 230-250\<close>
  "snapshot_and_restart w config full_backup =
     try_finally
       (try_except (run_duplicity w config full_backup)
                   (\<lambda>e. emit (LogWarning ''Backup failed: '' e)))
       (start_services w)"

definition delete_migrated :: "'dt world \<Rightarrow> unit action" where
  \<comment> \<open>lines 252-254\<close>
  "delete_migrated w s =
     (if isdir (migrated_unencrypted_backup_dir w) s
      then shutil_rmtree (migrated_unencrypted_backup_dir w) s
      else return () s)"

definition remove_cmd :: "'dt world \<Rightarrow> int \<Rightarrow> string \<Rightarrow> string list" where
  \<comment> \<open>the argument list of lines 259-266\<close>
  "remove_cmd w m target =
     [''/usr/bin/duplicity'', ''remove-older-than'', fmt_d m @ ''D'',
      ''--archive-dir'', backup_cache_dir w, ''--force'', target]"

definition remove_old :: "'dt world \<Rightarrow> config \<Rightarrow> unit action" where
  \<comment> \<open>lines 258-269\<close>
  "remove_old w config =
     try_except
       (bnd (lift (min_age config)) (\<lambda>m.
        bnd (lift (target_arg config)) (\<lambda>tv.
        bnd (lift (get_env w)) (\<lambda>e.
        bnd (lift (arg_str tv)) (\<lambda>target.
        shell_call w (remove_cmd w m target) e)))))
       (\<lambda>e. emit (LogWarning ''Removal of old backups failed: '' e))"

definition cleanup_cmd :: "'dt world \<Rightarrow> string \<Rightarrow> string list" where
  \<comment> \<open>the argument list of lines 277-283\<close>
  "cleanup_cmd w target =
     [''/usr/bin/duplicity'', ''cleanup'', ''--archive-dir'', backup_cache_dir w, ''--force'', target]"

definition cleanup :: "'dt world \<Rightarrow> config \<Rightarrow> unit action" where
  \<comment> \<open>lines 276-286\<close>
  "cleanup w config =
     try_except
       (bnd (lift (target_arg config)) (\<lambda>tv.
        bnd (lift (get_env w)) (\<lambda>e.
        bnd (lift (arg_str tv)) (\<lambda>target.
        shell_call w (cleanup_cmd w target) e))))
       (\<lambda>e. emit (LogWarning ''Cleanup of backups failed: '' e))"

definition chown_cmd :: "'dt world \<Rightarrow> string list" where
  "chown_cmd w = [''/bin/chown'', ''-R'', storage_user w, backup_dir w]"

definition fix_ownership :: "'dt world \<Rightarrow> config \<Rightarrow> unit action" where
  \<comment> \<open>lines 290-291\<close>
  "fix_ownership w config =
     bnd (lift (get_target_type config)) (\<lambda>t.
       if t = ''file'' then shell_call w (chown_cmd w) [] else return ())"

definition post_script :: "'dt world \<Rightarrow> string" where
  "post_script w = path_join (backup_root w) ''after-backup''"

definition post_cmd :: "'dt world \<Rightarrow> string \<Rightarrow> string list" where
  "post_cmd w target = [''su'', storage_user w, ''-c'', post_script w, target]"

definition post_hook :: "'dt world \<Rightarrow> config \<Rightarrow> unit action" where
  \<comment> \<open>lines 296-300\<close>
  "post_hook w config =
     (if post_script_exists w
      then bnd (lift (target_arg config)) (\<lambda>tv.
           bnd (lift (get_env w)) (\<lambda>e.
           bnd (lift (arg_str tv)) (\<lambda>target.
           shell_call w (post_cmd w target) e)))
      else return ())"

definition wait_services :: "'dt world \<Rightarrow> unit action" where
  \<comment> \<open>lines 306-307: \<^verbatim>\<open>utils.wait_for_service\<close> polls a port and returns\<close>
  "wait_services w = andthen (emit (WaitForService 25)) (emit (WaitForService 993))"

definition later_steps :: "'dt world \<Rightarrow> config \<Rightarrow> unit action" where
  \<comment> \<open>lines 252-307, everything after the services have been started again\<close>
  "later_steps w config =
     andthen (delete_migrated w)
    (andthen (remove_old w config)
    (andthen (cleanup w config)
    (andthen (fix_ownership w config)
    (andthen (post_hook w config)
             (wait_services w)))))"

definition perform_backup :: "bool \<Rightarrow> 'dt world \<Rightarrow> unit action" where
  \<comment> \<open>lines 183-307; \<^verbatim>\<open>full_backup or should_force_full(env)\<close> asks for the status only
      when the flag is not set\<close>
  "perform_backup full_backup w =
     andthen (exclusive_process w)
       (let config = get_backup_config w
        in andthen (migrate_old_backup w)
          (bnd (if full_backup then return True else should_force_full w) (\<lambda>full_backup.
           andthen (stop_services w)
          (andthen (snapshot_and_restart w config full_backup)
                   (later_steps w config)))))"

definition run :: "bool \<Rightarrow> 'dt world \<Rightarrow> (error + unit) \<times> state" where
  \<comment> \<open>one invocation of the script, from the state it finds\<close>
  "run full_backup w = perform_backup full_backup w (init_state w)"

text \<open>The verification run of the command line option \<^verbatim>\<open>--verify\<close>.\<close>

definition verify_cmd :: "'dt world \<Rightarrow> string \<Rightarrow> string list" where
  \<comment> \<open>the argument list of lines 314-323\<close>
  "verify_cmd w target =
     [''/usr/bin/duplicity'', ''--verbosity'', ''info'', ''verify'', ''--compare-data'',
      ''--archive-dir'', backup_cache_dir w, ''--exclude'', backup_root w,
      target, storage_root w]"

definition run_duplicity_verification :: "'dt world \<Rightarrow> unit action" where
  \<comment> \<open>lines 309-323\<close>
  "run_duplicity_verification w =
     (let config = get_backup_config w
      in bnd (lift (target_arg config)) (\<lambda>tv.
         bnd (lift (get_env w)) (\<lambda>e.
         bnd (lift (arg_str tv)) (\<lambda>target.
         shell_call w (verify_cmd w target) e))))"

section \<open>Example inputs\<close>

text \<open>Rows of a backup listing as \<^verbatim>\<open>parse_line\<close> builds them, without the display strings.\<close>

definition inc_row :: "string \<Rightarrow> int \<Rightarrow> backup" where
  "inc_row d n = \<lparr>date = d, date_str = [], date_delta = [], full = False, size_bytes = n,
     deleted_in = None\<rparr>"

definition full_row :: "string \<Rightarrow> int \<Rightarrow> backup" where
  "full_row d n = \<lparr>date = d, date_str = [], date_delta = [], full = True, size_bytes = n,
     deleted_in = None\<rparr>"

text \<open>
  A box with no \<^verbatim>\<open>custom.yaml\<close>, a key file with a 65-character first line, an existing
  \<^verbatim>\<open>backup/encrypted\<close> directory and subprocesses that all succeed with empty output.
  Time stamps are the strings of duplicity's listing, which compare in time order.
\<close>

definition example_world :: "string world" where
  "example_world =
     \<lparr>storage_root = ''/home/user-data'', storage_user = ''user-data'', lock_free = True,
      custom_yaml = LoadError,
      secret_key_line = Some ''abcdefghijklmnopqrstuvwxyzabcdefghijklmnopqrstuvwxyz0123456789+/A'',
      run_process = (\<lambda>cmd e. Some []),
      initial_dirs = {''/home/user-data/backup/encrypted''},
      post_script_exists = False, now = ''20150104T000000Z'', tzname = ''UTC'',
      dt_parse = Some, dt_strftime = (\<lambda>d. d), dt_less = (\<lambda>a b. Some (a < b)),
      dt_relativedelta = (\<lambda>a b. \<lparr>years = 0, months = 0, days = 0, hours = 0, minutes = 0\<rparr>),
      dt_minus_days = (\<lambda>d n. Some d)\<rparr>"

definition example_env :: env where
  "example_env =
     [(''PASSPHRASE'', YStr ''abcdefghijklmnopqrstuvwxyzabcdefghijklmnopqrstuvwxyz0123456789+/A'')]"

definition example_target :: string where
  "example_target = ''file:///home/user-data/backup/encrypted''"

text \<open>The example box with a date library that reports the calendar difference \<open>rd\<close>.\<close>

definition gap_world :: "relativedelta \<Rightarrow> string world" where
  "gap_world rd = example_world\<lparr>dt_relativedelta := (\<lambda>ref d. rd)\<rparr>"

text \<open>Variants of the example box: the start of dovecot fails; the key file has a first line
  of 20 characters; every subprocess fails; the old unencrypted directory is present and the
  full snapshot fails; the target is an S3 bucket with credentials; the target is an rsync
  server with the same credentials.\<close>

definition dovecot_start_fails :: "string world" where
  "dovecot_start_fails =
     example_world\<lparr>run_process :=
       (\<lambda>cmd e. if cmd = service_cmd ''dovecot'' ''start'' then None else Some [])\<rparr>"

definition short_key_world :: "string world" where
  "short_key_world = example_world\<lparr>secret_key_line := Some ''12345678901234567890''\<rparr>"

definition status_fails_world :: "string world" where
  "status_fails_world = example_world\<lparr>run_process := (\<lambda>cmd e. None)\<rparr>"

definition legacy_world :: "string world" where
  "legacy_world =
     example_world\<lparr>initial_dirs :=
         {''/home/user-data/backup/duplicity'', ''/home/user-data/backup/encrypted''},
       run_process :=
         (\<lambda>cmd e. if take 2 cmd = [''/usr/bin/duplicity'', ''full''] then None else Some [])\<rparr>"

definition s3_world :: "string world" where
  "s3_world =
     example_world\<lparr>custom_yaml := Mapping
       [''min_age_in_days'' \<mapsto> YInt 3,
        ''target'' \<mapsto> YStr ''s3://s3.amazonaws.com/bucket/box'',
        ''target_user'' \<mapsto> YStr ''AKIDEXAMPLE'',
        ''target_pass'' \<mapsto> YStr ''secret'']\<rparr>"

definition rsync_world :: "string world" where
  "rsync_world =
     example_world\<lparr>custom_yaml := Mapping
       [''min_age_in_days'' \<mapsto> YInt 3,
        ''target'' \<mapsto> YStr ''rsync://user@host/backup'',
        ''target_user'' \<mapsto> YStr ''AKIDEXAMPLE'',
        ''target_pass'' \<mapsto> YStr ''secret'']\<rparr>"

definition s3_env :: env where
  "s3_env =
     [(''PASSPHRASE'', YStr ''abcdefghijklmnopqrstuvwxyzabcdefghijklmnopqrstuvwxyz0123456789+/A''),
      (''AWS_ACCESS_KEY_ID'', YStr ''AKIDEXAMPLE''),
      (''AWS_SECRET_ACCESS_KEY'', YStr ''secret'')]"

text \<open>The example box whose status query prints a given listing; five listings (one full
  backup of 100 volumes and two increments of 10; increments only; an increment of exactly
  half the volumes of the full backup; an increment of 51 volumes; an increment of exactly
  half the volumes of a full backup of more than \<open>2^53\<close> bytes); and the rows that
  \<^verbatim>\<open>parse_line\<close> builds on the example box.\<close>

definition listing_world :: "string \<Rightarrow> string world" where
  "listing_world listing = example_world\<lparr>run_process := (\<lambda>cmd e. Some listing)\<rparr>"

definition scenario_listing :: string where
  "scenario_listing = ''Chain start time: Thu Jan  1 00:00:00 2015
 full 20150101T000000Z 100
 inc 20150102T000000Z 10
 inc 20150103T000000Z 10
''"

definition increments_listing :: string where
  "increments_listing = '' inc 20150102T000000Z 10
 inc 20150103T000000Z 10
''"

definition half_listing :: string where
  "half_listing = '' full 20150101T000000Z 100
 inc 20150102T000000Z 50
''"

definition above_half_listing :: string where
  "above_half_listing = '' full 20150101T000000Z 100
 inc 20150102T000000Z 51
''"

definition huge_listing :: string where
  "huge_listing = '' full 20150101T000000Z 9223372042
 inc 20150102T000000Z 4611686021
''"

definition listed :: "bool \<Rightarrow> string \<Rightarrow> int \<Rightarrow> string option \<Rightarrow> backup" where
  "listed f d n del = \<lparr>date = d, date_str = d, date_delta = ''0 hours, 0 minutes'', full = f,
     size_bytes = n * 250 * 1000000, deleted_in = del\<rparr>"

section \<open>Vocabulary of the properties\<close>

text \<open>The events of the steps that follow the restart of the services (lines 252-307):
  removal of the migrated directory, pruning, cleanup, change of ownership, the post-backup
  script and the wait for the services.\<close>

definition later_event :: "'dt world \<Rightarrow> event \<Rightarrow> bool" where
  "later_event w ev =
     (case ev of
        Shell cmd e ok \<Rightarrow>
          take 2 cmd = [''/usr/bin/duplicity'', ''remove-older-than'']
          \<or> take 2 cmd = [''/usr/bin/duplicity'', ''cleanup'']
          \<or> take 1 cmd = [''/bin/chown''] \<or> take 1 cmd = [''su'']
      | Rmtree p \<Rightarrow> p = migrated_unencrypted_backup_dir w
      | LogWarning msg e \<Rightarrow>
          msg = ''Removal of old backups failed: '' \<or> msg = ''Cleanup of backups failed: ''
      | WaitForService port \<Rightarrow> True
      | _ \<Rightarrow> False)"

text \<open>The events of the steps that precede the stop of the services (lines 197-221): the
  migration of the old directory and the status query of \<^verbatim>\<open>should_force_full\<close>.\<close>

definition prepare_event :: "'dt world \<Rightarrow> event \<Rightarrow> bool" where
  "prepare_event w ev =
     (case ev of
        Move a b \<Rightarrow> a = old_backup_dir w \<and> b = migrated_unencrypted_backup_dir w
      | Rmtree p \<Rightarrow> p = backup_dir w
      | Shell cmd e ok \<Rightarrow> take 2 cmd = [''/usr/bin/duplicity'', ''collection-status'']
      | _ \<Rightarrow> False)"

text \<open>The events of the snapshot step (lines 230-246): the snapshot command and the log line
  of its outcome.\<close>

definition snapshot_event :: "event \<Rightarrow> bool" where
  "snapshot_event ev =
     (case ev of
        Shell cmd e ok \<Rightarrow>
          take 2 cmd = [''/usr/bin/duplicity'', ''full'']
          \<or> take 2 cmd = [''/usr/bin/duplicity'', ''incr'']
      | LogInfo msg \<Rightarrow> msg = ''Backup successful''
      | LogWarning msg e \<Rightarrow> msg = ''Backup failed: ''
      | _ \<Rightarrow> False)"

text \<open>An action only appends events to the trace, and all of them satisfy \<open>P\<close>.\<close>

definition appends :: "(event \<Rightarrow> bool) \<Rightarrow> 'a action \<Rightarrow> bool" where
  "appends P m = (\<forall>s. \<exists>evs. trace (snd (m s)) = trace s @ evs \<and> list_all P evs)"

text \<open>The four calls of the service manager, with their outcome.\<close>

definition start_dovecot :: "bool \<Rightarrow> event" where
  "start_dovecot ok = Shell (service_cmd ''dovecot'' ''start'') [] ok"

definition start_postfix :: "bool \<Rightarrow> event" where
  "start_postfix ok = Shell (service_cmd ''postfix'' ''start'') [] ok"

definition stop_dovecot :: "bool \<Rightarrow> event" where
  "stop_dovecot ok = Shell (service_cmd ''dovecot'' ''stop'') [] ok"

definition stop_postfix :: "bool \<Rightarrow> event" where
  "stop_postfix ok = Shell (service_cmd ''postfix'' ''stop'') [] ok"

text \<open>The \<^verbatim>\<open>try\<close>/\<^verbatim>\<open>except\<close> part of lines 230-246, without the \<^verbatim>\<open>finally\<close>.\<close>

definition snapshot_body :: "'dt world \<Rightarrow> config \<Rightarrow> bool \<Rightarrow> unit action" where
  "snapshot_body w config full_backup =
     try_except (run_duplicity w config full_backup) (\<lambda>e. emit (LogWarning ''Backup failed: '' e))"

text \<open>The configuration with the credentials removed, the argument lists the script builds
  from a configuration, and the check of one event against them.\<close>

definition without_credentials :: "'dt world \<Rightarrow> 'dt world" where
  "without_credentials w =
     w\<lparr>custom_yaml :=
        (case custom_yaml w of
           Mapping c \<Rightarrow> Mapping (c(''target_user'' := None, ''target_pass'' := None))
         | d \<Rightarrow> d)\<rparr>"

definition command_lines :: "'dt world \<Rightarrow> string list set" where
  "command_lines w =
     {service_cmd ''dovecot'' ''stop'', service_cmd ''postfix'' ''stop'',
      service_cmd ''dovecot'' ''start'', service_cmd ''postfix'' ''start'', chown_cmd w}
     \<union> (case get_backup_config w ''target'' of
          Some (YStr t) \<Rightarrow>
            {status_cmd w t, backup_cmd w True t, backup_cmd w False t, cleanup_cmd w t,
             post_cmd w t, verify_cmd w t}
            \<union> (case min_age (get_backup_config w) of
                 Inr m \<Rightarrow> {remove_cmd w m t}
               | Inl e \<Rightarrow> {})
        | _ \<Rightarrow> {})"

definition argv_ok :: "'dt world \<Rightarrow> event \<Rightarrow> bool" where
  "argv_ok w ev =
     (case ev of
        Shell cmd en ok \<Rightarrow>
          cmd \<in> command_lines (without_credentials w) \<and> (en = [] \<or> get_env w = Inr en)
      | _ \<Rightarrow> True)"

section \<open>Properties\<close>

named_theorems model \<open>the definitions of the model, for evaluating it on an example\<close>

lemmas [model] = run_def perform_backup_def init_state_def exclusive_process_def
  migrate_old_backup_def stop_services_def start_services_def snapshot_and_restart_def
  run_duplicity_def later_steps_def delete_migrated_def remove_old_def cleanup_def
  fix_ownership_def post_hook_def wait_services_def should_force_full_def backup_status_def
  bnd_def andthen_def lift_def return_def raise_def try_except_def try_finally_def emit_def
  shell_def shell_call_def isdir_def shutil_move_def shutil_rmtree_def
  get_env_def get_backup_config_def default_config_def get_passphrase_def get_target_type_def
  target_arg_def arg_str_def min_age_def annotate_def sorted_reverse_def predict_deleted_in_def
  backup_root_def old_backup_dir_def migrated_unencrypted_backup_dir_def backup_dir_def
  backup_cache_dir_def post_script_def path_join_def startswith_def strip_def is_space_def
  split_char_def service_cmd_def backup_cmd_def status_cmd_def remove_cmd_def cleanup_cmd_def
  chown_cmd_def post_cmd_def fmt_d_def digits.simps digit_char_def Let_def
  example_world_def example_env_def example_target_def

subsection \<open>Numbers that the floats represent exactly\<close>

lemma py_round_of_int [simp]: "py_round (of_int z) = z"
  by (simp add: py_round_def)

lemma floor_numeral_div [simp]:
  "\<lfloor>(numeral a :: rat) / numeral b\<rfloor> = numeral a div numeral b"
  using floor_divide_of_int_eq [of "numeral a" "numeral b", where ?'a = rat] by simp

lemma floor_neg_numeral_div [simp]:
  "\<lfloor>- ((numeral a :: rat) / numeral b)\<rfloor> = - numeral a div numeral b"
  using floor_divide_of_int_eq [of "- numeral a" "numeral b", where ?'a = rat] by simp

lemma bits_lower: "0 < n \<Longrightarrow> 2 ^ (bits n - 1) \<le> n"
proof (induction n rule: bits.induct)
  case (1 n)
  show ?case
  proof (cases "n div 2 = 0")
    case True
    with "1.prems" have "n = 1" by (simp add: div_eq_0_iff)
    then show ?thesis by (simp add: bits.simps)
  next
    case False
    then have "2 ^ (bits (n div 2) - 1) \<le> n div 2" using 1 by simp
    moreover have "bits (n div 2) > 0" using False by (subst bits.simps) simp
    ultimately have "2 ^ (bits (n div 2)) \<le> 2 * (n div 2)"
      by (cases "bits (n div 2)") simp_all
    also have "\<dots> \<le> n" by simp
    finally show ?thesis using "1.prems" by (subst bits.simps) simp
  qed
qed

lemma bits_upper: "n < 2 ^ bits n"
proof (induction n rule: bits.induct)
  case (1 n)
  show ?case
  proof (cases "n = 0")
    case True
    then show ?thesis by simp
  next
    case False
    with 1 have "n div 2 < 2 ^ bits (n div 2)" by simp
    then have "n < 2 * 2 ^ bits (n div 2)" by linarith
    with False show ?thesis by (subst bits.simps) simp
  qed
qed

lemma bits_pos: "0 < n \<Longrightarrow> 0 < bits n"
  by (subst bits.simps) simp

lemma expo_le:
  assumes "x \<noteq> 0"
  shows "2 powi (expo x) \<le> \<bar>x\<bar>"
proof (cases "1 \<le> \<bar>x\<bar>")
  case True
  let ?n = "nat \<lfloor>\<bar>x\<bar>\<rfloor>"
  have n: "0 < ?n" using True by (simp add: le_floor_iff)
  have e: "expo x = int (bits ?n - 1)"
    using True bits_pos [OF n] by (simp add: expo_def)
  have "(2::rat) powi (expo x) = of_nat (2 ^ (bits ?n - 1))"
    unfolding e by (simp add: power_int_of_nat)
  also have "\<dots> \<le> of_nat ?n" using bits_lower [OF n] by (simp only: of_nat_le_iff)
  also have "\<dots> = of_int \<lfloor>\<bar>x\<bar>\<rfloor>" using True by simp
  also have "\<dots> \<le> \<bar>x\<bar>" by simp
  finally show ?thesis .
next
  case False
  let ?y = "1 / \<bar>x\<bar>"
  let ?n = "nat (\<lceil>?y\<rceil> - 1)"
  have y: "1 < ?y" using False assms by simp
  then have c: "2 \<le> \<lceil>?y\<rceil>" by (simp add: le_ceiling_iff)
  have e: "expo x = - int (bits ?n)" using False by (simp add: expo_def)
  define m where "m = \<lceil>?y\<rceil>"
  have m: "2 \<le> m" "?y \<le> of_int m" "?n = nat (m - 1)"
    using c by (simp_all add: m_def)
  have "int (nat (m - 1)) + 1 \<le> int (2 ^ bits (nat (m - 1)))"
    using bits_upper [of "nat (m - 1)"] by linarith
  then have "m \<le> int (2 ^ bits ?n)" using m(1,3) by simp
  then have "(of_int m :: rat) \<le> of_int (int (2 ^ bits ?n))" by (simp only: of_int_le_iff)
  also have "\<dots> = 2 ^ bits ?n" by simp
  finally have "(of_int m :: rat) \<le> 2 ^ bits ?n" .
  with m(2) have "?y \<le> 2 ^ bits ?n" by (rule order_trans)
  then have "1 \<le> 2 ^ bits ?n * \<bar>x\<bar>" using assms by (simp add: field_simps)
  then have "1 / 2 ^ bits ?n \<le> \<bar>x\<bar>" by (simp add: field_simps)
  then show ?thesis unfolding e by (simp add: power_int_minus field_simps)
qed

lemma expo_less:
  assumes "x \<noteq> 0" and "\<bar>x\<bar> < 2 powi t"
  shows "expo x < t"
proof (rule ccontr)
  assume "\<not> expo x < t"
  then have "t \<le> expo x" by simp
  then have "(2::rat) powi t \<le> 2 powi expo x" by (simp add: power_int_increasing)
  also have "\<dots> \<le> \<bar>x\<bar>" using assms(1) by (rule expo_le)
  finally show False using assms(2) by simp
qed

text \<open>A number with at most 53 significant bits and an exponent in range is a float.\<close>

lemma rnd_exact:
  assumes "x = of_int n * 2 powi j" and "\<bar>n\<bar> < 2 ^ 53" and "- 1074 \<le> j"
  shows "rnd x = x"
proof (cases "x = 0")
  case True
  then show ?thesis by (simp add: rnd_def)
next
  case False
  define k where "k = max (expo x - 52) (- 1074)"
  have "\<bar>x\<bar> = of_int \<bar>n\<bar> * 2 powi j" by (simp add: assms(1) abs_mult)
  also have "\<dots> < of_int (2 ^ 53) * 2 powi j"
    using assms(2) by (intro mult_strict_right_mono) (simp_all only: of_int_less_iff, simp)
  also have "\<dots> = 2 powi (53 + j)" by (simp add: power_int_add)
  finally have "expo x < 53 + j" using False by (intro expo_less)
  then have kj: "k \<le> j" using assms(3) by (simp add: k_def)
  then obtain i where i: "j = k + int i" by (metis zle_iff_zadd)
  have "x / 2 powi k = of_int n * 2 powi (int i)"
    by (simp add: assms(1) i power_int_add)
  also have "\<dots> = of_int (n * 2 ^ i)" by (simp add: power_int_of_nat)
  finally have "py_round (x / 2 powi k) = n * 2 ^ i" by (simp only: py_round_of_int)
  then have "rnd x = of_int (n * 2 ^ i) * 2 powi k"
    using False by (simp add: rnd_def k_def Let_def)
  also have "\<dots> = x" by (simp add: assms(1) i power_int_add power_int_of_nat)
  finally show ?thesis .
qed

lemma float_of_int_exact:
  assumes "\<bar>n\<bar> < 2 ^ 53"
  shows "float_of_int n = Inr (of_int n)"
proof -
  have r: "rnd (of_int n) = of_int n"
    using rnd_exact [of "of_int n" n 0] assms by simp
  have "\<bar>of_int n :: rat\<bar> = of_int \<bar>n\<bar>" by simp
  also have "\<dots> < of_int (2 ^ 53)" using assms by (simp only: of_int_less_iff)
  also have "\<dots> \<le> 2 powi 1024" by simp
  finally have "\<not> 2 powi 1024 \<le> \<bar>of_int n :: rat\<bar>" by simp
  then show ?thesis by (simp add: float_of_int_def fl_def r)
qed

lemma half_of_exact:
  assumes "\<bar>n\<bar> < 2 ^ 53"
  shows "half_of n = Inr (of_int n / 2)"
proof -
  have "rnd (1 / 2 * of_int n) = 1 / 2 * of_int n"
    using rnd_exact [of "1 / 2 * of_int n" n "- 1"] assms by (simp add: power_int_minus)
  then show ?thesis by (simp add: half_of_def float_of_int_exact [OF assms])
qed

lemma fl_int:
  assumes "\<bar>n\<bar> < 2 ^ 53"
  shows "fl (of_int n) = Some (of_int n)"
  using float_of_int_exact [OF assms] by (simp add: float_of_int_def split: option.splits)

subsection \<open>The example listings\<close>

lemma fmt0: "fmt_d 0 = ''0''"
  by (simp add: fmt_d_def digits.simps digit_char_def)

lemma parse_rows:
  "parse_line (listing_world l) '' full 20150101T000000Z 100''
     = Inr (listed True ''20150101T000000Z'' 100 None)"
  "parse_line (listing_world l) '' inc 20150102T000000Z 10''
     = Inr (listed False ''20150102T000000Z'' 10 None)"
  "parse_line (listing_world l) '' inc 20150103T000000Z 10''
     = Inr (listed False ''20150103T000000Z'' 10 None)"
  "parse_line (listing_world l) '' inc 20150102T000000Z 50''
     = Inr (listed False ''20150102T000000Z'' 50 None)"
  "parse_line (listing_world l) '' inc 20150102T000000Z 51''
     = Inr (listed False ''20150102T000000Z'' 51 None)"
  "parse_line (listing_world l) '' full 20150101T000000Z 9223372042''
     = Inr (listed True ''20150101T000000Z'' 9223372042 None)"
  "parse_line (listing_world l) '' inc 20150102T000000Z 4611686021''
     = Inr (listed False ''20150102T000000Z'' 4611686021 None)"
  by (simp_all add: parse_line_def split_ws_def strip_def is_space_def listing_world_def
      example_world_def py_int_def is_digit_def digit_val_def reldate_def fmt0 Let_def
      listed_def)

lemma listing_lines:
  "split_char CHR 0x0A scenario_listing
     = [''Chain start time: Thu Jan  1 00:00:00 2015'', '' full 20150101T000000Z 100'',
        '' inc 20150102T000000Z 10'', '' inc 20150103T000000Z 10'', []]"
  "split_char CHR 0x0A increments_listing
     = ['' inc 20150102T000000Z 10'', '' inc 20150103T000000Z 10'', []]"
  "split_char CHR 0x0A half_listing
     = ['' full 20150101T000000Z 100'', '' inc 20150102T000000Z 50'', []]"
  "split_char CHR 0x0A above_half_listing
     = ['' full 20150101T000000Z 100'', '' inc 20150102T000000Z 51'', []]"
  "split_char CHR 0x0A huge_listing
     = ['' full 20150101T000000Z 9223372042'', '' inc 20150102T000000Z 4611686021'', []]"
  by (simp_all add: split_char_def scenario_listing_def increments_listing_def half_listing_def
      above_half_listing_def huge_listing_def)

lemma listing_parsed:
  "parse_lines (listing_world l) (split_char CHR 0x0A scenario_listing) []
   = Inr [(''20150101T000000Z'', listed True ''20150101T000000Z'' 100 None),
          (''20150102T000000Z'', listed False ''20150102T000000Z'' 10 None),
          (''20150103T000000Z'', listed False ''20150103T000000Z'' 10 None)]"
  "parse_lines (listing_world l) (split_char CHR 0x0A increments_listing) []
   = Inr [(''20150102T000000Z'', listed False ''20150102T000000Z'' 10 None),
          (''20150103T000000Z'', listed False ''20150103T000000Z'' 10 None)]"
  "parse_lines (listing_world l) (split_char CHR 0x0A half_listing) []
   = Inr [(''20150101T000000Z'', listed True ''20150101T000000Z'' 100 None),
          (''20150102T000000Z'', listed False ''20150102T000000Z'' 50 None)]"
  "parse_lines (listing_world l) (split_char CHR 0x0A above_half_listing) []
   = Inr [(''20150101T000000Z'', listed True ''20150101T000000Z'' 100 None),
          (''20150102T000000Z'', listed False ''20150102T000000Z'' 51 None)]"
  "parse_lines (listing_world l) (split_char CHR 0x0A huge_listing) []
   = Inr [(''20150101T000000Z'', listed True ''20150101T000000Z'' 9223372042 None),
          (''20150102T000000Z'', listed False ''20150102T000000Z'' 4611686021 None)]"
  unfolding listing_lines
  by (simp_all add: parse_rows startswith_def listed_def)

lemmas float_eval = float_of_int_def half_of_def int_div_def f_div_def f_add_def fl_def
  rnd_def expo_def bits.simps py_round_def Let_def power_int_minus

lemma estimates:
  "predict_deleted_in (default_config w) 2 20 (Some 100) = Inr (Some ''approx. 6 days'')"
  "predict_deleted_in (default_config w) 2 5000000000 (Some 25000000000)
     = Inr (Some ''approx. 6 days'')"
  "predict_deleted_in (default_config w) 1 12500000000 (Some 25000000000)
     = Inr (Some ''approx. 4 days'')"
  "predict_deleted_in (default_config w) 1 1152921505250000000 (Some 2305843010500000000)
     = Inr (Some ''approx. 4 days'')"
  "predict_deleted_in (default_config w) 1 12750000000 (Some 25000000000)
     = Inr (Some ''approx. 3 days'')"
  by (simp_all add: predict_deleted_in_def default_config_def float_eval fmt_d_def
      digits.simps digit_char_def)

text \<open>The rounding of the quotient shows in the estimate: for a full backup of 260 volumes and
  three increments of 5, 4 and 4 volumes the exact value of the sum is 30.5, the floats give
  a little more, and the estimate is 31 days.\<close>

lemma estimate_rounded_quotient:
  "predict_deleted_in (default_config w) 3 3250000000 (Some 65000000000)
     = Inr (Some ''approx. 31 days'')"
  by (simp add: predict_deleted_in_def default_config_def float_eval fmt_d_def
      digits.simps digit_char_def)

lemma min_age_default: "min_age (default_config w) = Inr 3"
  by (simp add: min_age_def default_config_def)

lemma predict_none: "predict_deleted_in config n m None = Inr None"
  by (simp add: predict_deleted_in_def)

lemma listing_world_sel:
  "dt_minus_days (listing_world l) d n = Some d"
  "now (listing_world l) = ''20150104T000000Z''"
  "dt_parse (listing_world l) = Some"
  "dt_less (listing_world l) a b = Some (a < b)"
  by (simp_all add: listing_world_def example_world_def)

lemma listing_annotated:
  "annotate (listing_world l) (default_config (listing_world l))
     [listed True ''20150101T000000Z'' 100 None, listed False ''20150102T000000Z'' 10 None,
      listed False ''20150103T000000Z'' 10 None]
   = Inr [listed False ''20150103T000000Z'' 10 (Some ''approx. 6 days''),
          listed False ''20150102T000000Z'' 10 (Some ''approx. 6 days''),
          listed True ''20150101T000000Z'' 100 (Some ''approx. 6 days'')]"
  "annotate (listing_world l) (default_config (listing_world l))
     [listed False ''20150102T000000Z'' 10 None, listed False ''20150103T000000Z'' 10 None]
   = Inr [listed False ''20150103T000000Z'' 10 None, listed False ''20150102T000000Z'' 10 None]"
  "annotate (listing_world l) (default_config (listing_world l))
     [listed True ''20150101T000000Z'' 100 None, listed False ''20150102T000000Z'' 50 None]
   = Inr [listed False ''20150102T000000Z'' 50 (Some ''approx. 4 days''),
          listed True ''20150101T000000Z'' 100 (Some ''approx. 4 days'')]"
  "annotate (listing_world l) (default_config (listing_world l))
     [listed True ''20150101T000000Z'' 100 None, listed False ''20150102T000000Z'' 51 None]
   = Inr [listed False ''20150102T000000Z'' 51 (Some ''approx. 3 days''),
          listed True ''20150101T000000Z'' 100 (Some ''approx. 3 days'')]"
  "annotate (listing_world l) (default_config (listing_world l))
     [listed True ''20150101T000000Z'' 9223372042 None,
      listed False ''20150102T000000Z'' 4611686021 None]
   = Inr [listed False ''20150102T000000Z'' 4611686021 (Some ''approx. 4 days''),
          listed True ''20150101T000000Z'' 9223372042 (Some ''approx. 4 days'')]"
  by (simp_all add: annotate_def sorted_reverse_def listed_def estimates predict_none
      min_age_default truthy_def listing_world_sel)

text \<open>The status of the example box for a listing, from its parsed and annotated rows.\<close>

lemma listing_status:
  assumes "parse_lines (listing_world l) (split_char CHR 0x0A l) [] = Inr d"
    and "annotate (listing_world l) (default_config (listing_world l)) (map snd d) = Inr bs"
  shows "backup_status (listing_world l) (init_state (listing_world l))
   = (Inr \<lparr>directory = ''/home/user-data/backup/encrypted'',
           encpwfile = ''/home/user-data/backup/secret_key.txt'', tz = ''UTC'',
           backups = bs\<rparr>,
      \<lparr>trace = [Shell (status_cmd example_world example_target) example_env True],
       dirs = {''/home/user-data/backup/encrypted''}\<rparr>)"
proof -
  have c: "get_backup_config (listing_world l) = default_config (listing_world l)"
    by (simp add: get_backup_config_def listing_world_def example_world_def)
  have t: "target_arg (default_config (listing_world l)) = Inr (YStr example_target)"
    by (simp add: target_arg_def default_config_def example_target_def backup_root_def
        path_join_def startswith_def listing_world_def example_world_def)
  have e: "get_env (listing_world l) = Inr example_env"
    by (simp add: get_env_def Let_def get_backup_config_def backup_root_def path_join_def
        startswith_def get_passphrase_def get_target_type_def default_config_def
        strip_def is_space_def split_char_def example_env_def listing_world_def
        example_world_def)
  have r: "run_process (listing_world l) cmd en = Some l" for cmd en
    by (simp add: listing_world_def)
  have p: "path_join (backup_root (listing_world l)) ''encrypted''
        = ''/home/user-data/backup/encrypted''"
    "path_join (backup_root (listing_world l)) ''secret_key.txt''
        = ''/home/user-data/backup/secret_key.txt''"
    "tzname (listing_world l) = ''UTC''"
    "status_cmd (listing_world l) example_target = status_cmd example_world example_target"
    "init_state (listing_world l)
        = \<lparr>trace = [], dirs = {''/home/user-data/backup/encrypted''}\<rparr>"
    by (simp_all add: backup_root_def path_join_def startswith_def listing_world_def
        example_world_def status_cmd_def init_state_def)
  show ?thesis
    unfolding backup_status_def Let_def c
    by (simp add: bnd_def lift_def return_def shell_def t e arg_str_def r assms p)
qed

lemma statuses:
  "backup_status (listing_world scenario_listing) (init_state (listing_world scenario_listing))
   = (Inr \<lparr>directory = ''/home/user-data/backup/encrypted'',
           encpwfile = ''/home/user-data/backup/secret_key.txt'', tz = ''UTC'',
           backups = [listed False ''20150103T000000Z'' 10 (Some ''approx. 6 days''),
                      listed False ''20150102T000000Z'' 10 (Some ''approx. 6 days''),
                      listed True ''20150101T000000Z'' 100 (Some ''approx. 6 days'')]\<rparr>,
      \<lparr>trace = [Shell (status_cmd example_world example_target) example_env True],
       dirs = {''/home/user-data/backup/encrypted''}\<rparr>)"
  "backup_status (listing_world increments_listing)
     (init_state (listing_world increments_listing))
   = (Inr \<lparr>directory = ''/home/user-data/backup/encrypted'',
           encpwfile = ''/home/user-data/backup/secret_key.txt'', tz = ''UTC'',
           backups = [listed False ''20150103T000000Z'' 10 None,
                      listed False ''20150102T000000Z'' 10 None]\<rparr>,
      \<lparr>trace = [Shell (status_cmd example_world example_target) example_env True],
       dirs = {''/home/user-data/backup/encrypted''}\<rparr>)"
  "backup_status (listing_world half_listing) (init_state (listing_world half_listing))
   = (Inr \<lparr>directory = ''/home/user-data/backup/encrypted'',
           encpwfile = ''/home/user-data/backup/secret_key.txt'', tz = ''UTC'',
           backups = [listed False ''20150102T000000Z'' 50 (Some ''approx. 4 days''),
                      listed True ''20150101T000000Z'' 100 (Some ''approx. 4 days'')]\<rparr>,
      \<lparr>trace = [Shell (status_cmd example_world example_target) example_env True],
       dirs = {''/home/user-data/backup/encrypted''}\<rparr>)"
  "backup_status (listing_world above_half_listing)
     (init_state (listing_world above_half_listing))
   = (Inr \<lparr>directory = ''/home/user-data/backup/encrypted'',
           encpwfile = ''/home/user-data/backup/secret_key.txt'', tz = ''UTC'',
           backups = [listed False ''20150102T000000Z'' 51 (Some ''approx. 3 days''),
                      listed True ''20150101T000000Z'' 100 (Some ''approx. 3 days'')]\<rparr>,
      \<lparr>trace = [Shell (status_cmd example_world example_target) example_env True],
       dirs = {''/home/user-data/backup/encrypted''}\<rparr>)"
  "backup_status (listing_world huge_listing) (init_state (listing_world huge_listing))
   = (Inr \<lparr>directory = ''/home/user-data/backup/encrypted'',
           encpwfile = ''/home/user-data/backup/secret_key.txt'', tz = ''UTC'',
           backups = [listed False ''20150102T000000Z'' 4611686021 (Some ''approx. 4 days''),
                      listed True ''20150101T000000Z'' 9223372042 (Some ''approx. 4 days'')]\<rparr>,
      \<lparr>trace = [Shell (status_cmd example_world example_target) example_env True],
       dirs = {''/home/user-data/backup/encrypted''}\<rparr>)"
  by (rule listing_status, rule listing_parsed, simp add: listing_annotated)+

subsection \<open>The full-backup policy\<close>

lemma force_full_loop_no_full:
  "\<forall>b \<in> set chain. \<not> full b \<Longrightarrow> force_full_loop chain acc = Inr True"
  by (induction chain arbitrary: acc) auto

lemma force_full_loop_prefix:
  "\<forall>b \<in> set incs. \<not> full b \<Longrightarrow> full f \<Longrightarrow>
   force_full_loop (incs @ f # rest) acc
     = (case half_of (size_bytes f) of
          Inl e \<Rightarrow> Inl e
        | Inr h \<Rightarrow> Inr (of_int (acc + sum_list (map size_bytes incs)) > h))"
  by (induction incs arbitrary: acc) (simp_all add: add.assoc split: sum.splits)

lemma force_full_loop_threshold:
  assumes "\<forall>b \<in> set incs. \<not> full b" and "full f" and "\<bar>size_bytes f\<bar> < 2 ^ 53"
  shows "force_full_loop (incs @ f # rest) 0
           = Inr (size_bytes f < 2 * sum_list (map size_bytes incs))"
proof -
  have "((of_int (size_bytes f) :: rat) / 2 < of_int (sum_list (map size_bytes incs)))
      = ((of_int (size_bytes f) :: rat) < of_int (2 * sum_list (map size_bytes incs)))"
    by (simp add: field_simps)
  also have "\<dots> = (size_bytes f < 2 * sum_list (map size_bytes incs))"
    by (rule of_int_less_iff)
  finally show ?thesis
    using force_full_loop_prefix [OF assms(1,2), of rest 0]
    by (simp add: half_of_exact [OF assms(3)])
qed

lemma should_force_full_of_status:
  assumes "backup_status w s = (Inr st, s')"
  shows "should_force_full w s = (force_full_loop (backups st) 0, s')"
  using assms by (simp add: should_force_full_def bnd_def lift_def)

text \<open>
  C3. When the status of the backups lists no full record, \<^verbatim>\<open>should_force_full\<close> returns
  true: its loop runs to the \<^verbatim>\<open>else\<close> branch. The empty list is an instance.
\<close>

theorem should_force_full_without_full_record:
  assumes "backup_status w s = (Inr st, s')" and "\<forall>b \<in> set (backups st). \<not> full b"
  shows "should_force_full w s = (Inr True, s')"
  using should_force_full_of_status [OF assms(1)] force_full_loop_no_full [OF assms(2)]
  by simp

lemma empty_status:
  "backup_status example_world (init_state example_world) =
   (Inr \<lparr>directory = ''/home/user-data/backup/encrypted'',
         encpwfile = ''/home/user-data/backup/secret_key.txt'', tz = ''UTC'', backups = []\<rparr>,
    \<lparr>trace = [Shell (status_cmd example_world example_target) example_env True],
     dirs = {''/home/user-data/backup/encrypted''}\<rparr>)"
  using listing_status [of "[]" "[]" "[]"]
  by (simp add: listing_world_def example_world_def split_char_def startswith_def annotate_def
      sorted_reverse_def predict_none min_age_def default_config_def)

text \<open>
  On the example box, an empty listing and a listing of two increments both make
  \<^verbatim>\<open>should_force_full\<close> return true.
\<close>

theorem should_force_full_without_full_record_witness:
  "should_force_full example_world (init_state example_world)
     = (Inr True, \<lparr>trace = [Shell (status_cmd example_world example_target) example_env True],
                   dirs = {''/home/user-data/backup/encrypted''}\<rparr>)
   \<and> should_force_full (listing_world increments_listing)
         (init_state (listing_world increments_listing))
     = (Inr True, \<lparr>trace = [Shell (status_cmd example_world example_target) example_env True],
                   dirs = {''/home/user-data/backup/encrypted''}\<rparr>)"
  using should_force_full_without_full_record [OF empty_status]
    should_force_full_without_full_record [OF statuses(2)]
  by (simp add: listed_def)

text \<open>
  C4. When the status lists incremental records followed by a full record whose size is
  below \<open>2^53\<close> bytes, \<^verbatim>\<open>should_force_full\<close> returns true exactly when the summed size of
  those incrementals is more than half the size of the full record: twice the sum must
  exceed the full size, so exactly half does not force a full backup.
\<close>

theorem should_force_full_threshold:
  assumes "backup_status w s = (Inr st, s')" and "backups st = incs @ f # rest"
    and "\<forall>b \<in> set incs. \<not> full b" and "full f" and "\<bar>size_bytes f\<bar> < 2 ^ 53"
  shows "should_force_full w s
           = (Inr (size_bytes f < 2 * sum_list (map size_bytes incs)), s')"
  using should_force_full_of_status [OF assms(1)]
    force_full_loop_threshold [OF assms(3,4,5), of rest]
  by (simp add: assms(2))

text \<open>
  On the example box, an increment of 50 volumes after a full backup of 100 volumes does not
  force a full backup, and an increment of 51 volumes does.
\<close>

theorem should_force_full_threshold_witness:
  "fst (should_force_full (listing_world half_listing) (init_state (listing_world half_listing)))
     = Inr False
   \<and> fst (should_force_full (listing_world above_half_listing)
            (init_state (listing_world above_half_listing))) = Inr True"
  using should_force_full_threshold [OF statuses(3),
      of "[listed False ''20150102T000000Z'' 50 (Some ''approx. 4 days'')]"
         "listed True ''20150101T000000Z'' 100 (Some ''approx. 4 days'')" "[]"]
    should_force_full_threshold [OF statuses(4),
      of "[listed False ''20150102T000000Z'' 51 (Some ''approx. 3 days'')]"
         "listed True ''20150101T000000Z'' 100 (Some ''approx. 3 days'')" "[]"]
  by (simp add: listed_def)

text \<open>
  C4, where it fails as stated: the full backup has 9223372042 volumes and the increment
  4611686021, exactly half of it. The size of the full backup, 2305843010500000000 bytes,
  is not a float; \<^verbatim>\<open>.5*bak["size"]\<close> converts it to the nearest one, 2305843010499999744,
  and halves that, so the increment is larger than the product and a full backup is forced.
\<close>

theorem exactly_half_forces_full_beyond_float_precision:
  "2 * size_bytes (listed False ''20150102T000000Z'' 4611686021 None)
     = size_bytes (listed True ''20150101T000000Z'' 9223372042 None)
   \<and> half_of 2305843010500000000 = Inr 1152921505249999872
   \<and> force_full_loop [listed False ''20150102T000000Z'' 4611686021 None,
                       listed True ''20150101T000000Z'' 9223372042 None] 0 = Inr True
   \<and> fst (should_force_full (listing_world huge_listing)
            (init_state (listing_world huge_listing))) = Inr True"
  by (simp add: should_force_full_of_status [OF statuses(5)] listed_def float_eval)

subsection \<open>The deletion estimate\<close>

text \<open>
  C7. The scenario of a full backup of size 100 followed by two increments of size 10, with
  the built-in minimum age of 3 days, first on the rows themselves (given oldest first and
  sorted by the code), then through \<^verbatim>\<open>should_force_full\<close> and \<^verbatim>\<open>backup_status\<close> on the
  listing that duplicity prints for it (the sizes are volumes of 250,000,000 bytes). No full
  backup is forced (20 is not more than 50), the estimate is
  \<open>round (3 + (50 - 20) / (20 / 2) + 0.5) = round 6.5 = 6\<close> (the tie goes to the even
  integer), and all three rows receive \<^verbatim>\<open>approx. 6 days\<close>.
\<close>

theorem scenario_three_records:
  "force_full_loop
     (sorted_reverse [full_row ''20150101T000000Z'' 100, inc_row ''20150102T000000Z'' 10,
                      inc_row ''20150103T000000Z'' 10]) 0 = Inr False
   \<and> annotate example_world (default_config example_world)
       [full_row ''20150101T000000Z'' 100, inc_row ''20150102T000000Z'' 10,
        inc_row ''20150103T000000Z'' 10]
     = Inr [(inc_row ''20150103T000000Z'' 10)\<lparr>deleted_in := Some ''approx. 6 days''\<rparr>,
            (inc_row ''20150102T000000Z'' 10)\<lparr>deleted_in := Some ''approx. 6 days''\<rparr>,
            (full_row ''20150101T000000Z'' 100)\<lparr>deleted_in := Some ''approx. 6 days''\<rparr>]
   \<and> fst (should_force_full (listing_world scenario_listing)
            (init_state (listing_world scenario_listing))) = Inr False
   \<and> fst (backup_status (listing_world scenario_listing)
            (init_state (listing_world scenario_listing)))
     = Inr \<lparr>directory = ''/home/user-data/backup/encrypted'',
            encpwfile = ''/home/user-data/backup/secret_key.txt'', tz = ''UTC'',
            backups = [listed False ''20150103T000000Z'' 10 (Some ''approx. 6 days''),
                       listed False ''20150102T000000Z'' 10 (Some ''approx. 6 days''),
                       listed True ''20150101T000000Z'' 100 (Some ''approx. 6 days'')]\<rparr>"
proof -
  have s: "sorted_reverse [full_row ''20150101T000000Z'' 100, inc_row ''20150102T000000Z'' 10,
                      inc_row ''20150103T000000Z'' 10]
     = [inc_row ''20150103T000000Z'' 10, inc_row ''20150102T000000Z'' 10,
        full_row ''20150101T000000Z'' 100]"
    by (simp add: sorted_reverse_def inc_row_def full_row_def)
  have h: "head_increments [inc_row ''20150103T000000Z'' 10, inc_row ''20150102T000000Z'' 10,
        full_row ''20150101T000000Z'' 100] 0 0 = (2, 20, Some 100)"
    by (simp add: inc_row_def full_row_def)
  have f: "force_full_loop [inc_row ''20150103T000000Z'' 10, inc_row ''20150102T000000Z'' 10,
        full_row ''20150101T000000Z'' 100] 0 = Inr False"
    by (simp add: inc_row_def full_row_def float_eval)
  have d: "dt_minus_days example_world (now example_world) 3 = Some ''20150104T000000Z''"
    by (simp add: example_world_def)
  have k: "mark_deleted example_world ''20150104T000000Z'' False (Some ''approx. 6 days'')
      [inc_row ''20150103T000000Z'' 10, inc_row ''20150102T000000Z'' 10,
        full_row ''20150101T000000Z'' 100]
     = Inr [(inc_row ''20150103T000000Z'' 10)\<lparr>deleted_in := Some ''approx. 6 days''\<rparr>,
            (inc_row ''20150102T000000Z'' 10)\<lparr>deleted_in := Some ''approx. 6 days''\<rparr>,
            (full_row ''20150101T000000Z'' 100)\<lparr>deleted_in := Some ''approx. 6 days''\<rparr>]"
    by (simp add: inc_row_def full_row_def truthy_def)
  have a: "annotate example_world (default_config example_world)
       [full_row ''20150101T000000Z'' 100, inc_row ''20150102T000000Z'' 10,
        inc_row ''20150103T000000Z'' 10]
     = Inr [(inc_row ''20150103T000000Z'' 10)\<lparr>deleted_in := Some ''approx. 6 days''\<rparr>,
            (inc_row ''20150102T000000Z'' 10)\<lparr>deleted_in := Some ''approx. 6 days''\<rparr>,
            (full_row ''20150101T000000Z'' 100)\<lparr>deleted_in := Some ''approx. 6 days''\<rparr>]"
    unfolding annotate_def s Let_def h prod.case estimates sum.case min_age_default d
      option.case k ..
  have g: "force_full_loop [listed False ''20150103T000000Z'' 10 (Some ''approx. 6 days''),
                       listed False ''20150102T000000Z'' 10 (Some ''approx. 6 days''),
                       listed True ''20150101T000000Z'' 100 (Some ''approx. 6 days'')] 0
     = Inr False"
    by (simp add: listed_def float_eval)
  have c: "fst (should_force_full (listing_world scenario_listing)
            (init_state (listing_world scenario_listing))) = Inr False"
    by (simp add: should_force_full_of_status [OF statuses(1)] g del: force_full_loop.simps)
  show ?thesis
    unfolding s by (intro conjI f a c) (simp add: statuses(1))
qed

subsection \<open>Traces of actions\<close>

lemma appendsD:
  assumes "appends P m" and "m s = (r, s')"
  obtains evs where "trace s' = trace s @ evs" and "list_all P evs"
  using assms unfolding appends_def by (metis snd_conv)

lemma appends_mono: "appends P m \<Longrightarrow> (\<And>ev. P ev \<Longrightarrow> Q ev) \<Longrightarrow> appends Q m"
  unfolding appends_def list_all_iff by blast

lemma appends_return: "appends P (return x)"
  by (simp add: appends_def return_def)

lemma appends_raise: "appends P (raise e)"
  by (simp add: appends_def raise_def)

lemma appends_lift: "appends P (lift r)"
  by (simp add: appends_def lift_def)

lemma appends_emit: "P ev \<Longrightarrow> appends P (emit ev)"
  by (simp add: appends_def emit_def)

lemma appends_shell:
  "P (Shell cmd e True) \<Longrightarrow> P (Shell cmd e False) \<Longrightarrow> appends P (shell w cmd e)"
  by (simp add: appends_def shell_def split: option.splits)

lemma appends_bnd:
  assumes "appends P m" and "\<And>x. appends P (f x)"
  shows "appends P (bnd m f)"
  unfolding appends_def
proof
  fix s
  obtain r s1 where ms: "m s = (r, s1)" by (cases "m s")
  from assms(1) ms obtain evs1 where e1: "trace s1 = trace s @ evs1" "list_all P evs1"
    by (rule appendsD)
  show "\<exists>evs. trace (snd (bnd m f s)) = trace s @ evs \<and> list_all P evs"
  proof (cases r)
    case (Inl e)
    with ms e1 show ?thesis by (auto simp: bnd_def)
  next
    case (Inr x)
    obtain r2 s2 where fs: "f x s1 = (r2, s2)" by (cases "f x s1")
    from assms(2) fs obtain evs2 where e2: "trace s2 = trace s1 @ evs2" "list_all P evs2"
      by (rule appendsD)
    have "trace (snd (bnd m f s)) = trace s @ (evs1 @ evs2)"
      using ms Inr fs e1 e2 by (simp add: bnd_def)
    moreover have "list_all P (evs1 @ evs2)" using e1 e2 by simp
    ultimately show ?thesis by blast
  qed
qed

lemma appends_andthen: "appends P m \<Longrightarrow> appends P k \<Longrightarrow> appends P (andthen m k)"
  by (simp add: andthen_def appends_bnd)

lemma appends_shell_call:
  "P (Shell cmd e True) \<Longrightarrow> P (Shell cmd e False) \<Longrightarrow> appends P (shell_call w cmd e)"
  by (simp add: shell_call_def appends_bnd appends_shell appends_return)

lemma appends_try_except:
  assumes "appends P m" and "\<And>e. appends P (h e)"
  shows "appends P (try_except m h)"
  unfolding appends_def
proof
  fix s
  obtain r s1 where ms: "m s = (r, s1)" by (cases "m s")
  from assms(1) ms obtain evs1 where e1: "trace s1 = trace s @ evs1" "list_all P evs1"
    by (rule appendsD)
  show "\<exists>evs. trace (snd (try_except m h s)) = trace s @ evs \<and> list_all P evs"
  proof (cases r)
    case (Inr x)
    with ms e1 show ?thesis by (auto simp: try_except_def)
  next
    case (Inl e)
    obtain r2 s2 where fs: "h e s1 = (r2, s2)" by (cases "h e s1")
    from assms(2) fs obtain evs2 where e2: "trace s2 = trace s1 @ evs2" "list_all P evs2"
      by (rule appendsD)
    have "trace (snd (try_except m h s)) = trace s @ (evs1 @ evs2)"
      using ms Inl fs e1 e2 by (simp add: try_except_def)
    moreover have "list_all P (evs1 @ evs2)" using e1 e2 by simp
    ultimately show ?thesis by blast
  qed
qed

lemma appends_try_finally:
  assumes "appends P m" and "appends P fin"
  shows "appends P (try_finally m fin)"
  unfolding appends_def
proof
  fix s
  obtain r s1 where ms: "m s = (r, s1)" by (cases "m s")
  from assms(1) ms obtain evs1 where e1: "trace s1 = trace s @ evs1" "list_all P evs1"
    by (rule appendsD)
  obtain r2 s2 where fs: "fin s1 = (r2, s2)" by (cases "fin s1")
  from assms(2) fs obtain evs2 where e2: "trace s2 = trace s1 @ evs2" "list_all P evs2"
    by (rule appendsD)
  have "trace (snd (try_finally m fin s)) = trace s @ (evs1 @ evs2)"
    using ms fs e1 e2 by (cases r2) (simp_all add: try_finally_def)
  moreover have "list_all P (evs1 @ evs2)" using e1 e2 by simp
  ultimately show "\<exists>evs. trace (snd (try_finally m fin s)) = trace s @ evs \<and> list_all P evs"
    by blast
qed

lemma appends_move: "P (Move a b) \<Longrightarrow> appends P (shutil_move a b)"
  by (simp add: appends_def shutil_move_def)

lemma appends_rmtree: "P (Rmtree p) \<Longrightarrow> appends P (shutil_rmtree p)"
  by (simp add: appends_def shutil_rmtree_def)

lemma appends_state_if:
  "appends P m \<Longrightarrow> appends P k \<Longrightarrow> appends P (\<lambda>s. if c s then m s else k s)"
  by (simp add: appends_def)

lemmas appends_intros = appends_return appends_raise appends_lift appends_emit appends_shell
  appends_shell_call appends_bnd appends_andthen appends_try_except appends_try_finally
  appends_move appends_rmtree

lemma path_join_last:
  "b \<noteq> [] \<Longrightarrow> hd b \<noteq> CHR ''/'' \<Longrightarrow> last (path_join a b) = last b"
  by (cases b) (auto simp: path_join_def startswith_def)

lemma backup_dir_not_migrated: "backup_dir w \<noteq> migrated_unencrypted_backup_dir w"
proof
  assume "backup_dir w = migrated_unencrypted_backup_dir w"
  then have "last (backup_dir w) = last (migrated_unencrypted_backup_dir w)" by simp
  then show False
    by (simp add: backup_dir_def migrated_unencrypted_backup_dir_def path_join_last)
qed

lemma appends_migrate:
  "appends (\<lambda>ev. ev = Move (old_backup_dir w) (migrated_unencrypted_backup_dir w)
                \<or> ev = Rmtree (backup_dir w)) (migrate_old_backup w)"
proof -
  have "migrate_old_backup w =
      (\<lambda>s. if isdir (old_backup_dir w) s
           then andthen (shutil_move (old_backup_dir w) (migrated_unencrypted_backup_dir w))
                   (shutil_rmtree (backup_dir w)) s
           else return () s)"
    by (rule ext) (simp add: migrate_old_backup_def)
  then show ?thesis
    by (simp add: appends_state_if appends_intros)
qed

lemma appends_backup_status:
  "appends (\<lambda>ev. \<exists>t e ok. ev = Shell (status_cmd w t) e ok) (backup_status w)"
  unfolding backup_status_def Let_def
  by (intro appends_intros) blast+

lemma appends_should_force_full:
  "appends (\<lambda>ev. \<exists>t e ok. ev = Shell (status_cmd w t) e ok) (should_force_full w)"
  unfolding should_force_full_def
  by (intro appends_intros appends_backup_status)

subsection \<open>Configuration and relative dates\<close>

lemma get_backup_config_mapping: "custom_yaml w = Mapping c \<Longrightarrow> get_backup_config w = c"
  by (simp add: get_backup_config_def)

lemma get_backup_config_default:
  "custom_yaml w = LoadError \<or> custom_yaml w = NotMapping \<Longrightarrow>
   get_backup_config w = default_config w"
  by (auto simp: get_backup_config_def)

text \<open>
  C6. On a failed load or a document that is not a mapping, \<^verbatim>\<open>get_backup_config\<close> returns
  the built-in defaults (lemma \<open>get_backup_config_default\<close>). On a mapping it builds the
  merge of the defaults with the document and then returns the document itself: for a
  document that only sets \<^verbatim>\<open>min_age_in_days\<close>, the result has no \<^verbatim>\<open>target\<close>, although
  the merge computed on the line before has the built-in one.
\<close>

theorem get_backup_config_drops_defaults:
  "get_backup_config (example_world\<lparr>custom_yaml := Mapping [''min_age_in_days'' \<mapsto> YInt 7]\<rparr>)
     = [''min_age_in_days'' \<mapsto> YInt 7]
   \<and> get_backup_config (example_world\<lparr>custom_yaml := Mapping [''min_age_in_days'' \<mapsto> YInt 7]\<rparr>)
        ''target'' = None
   \<and> (default_config example_world ++ [''min_age_in_days'' \<mapsto> YInt 7]) ''target''
        = Some (YStr example_target)"
  by (simp add: get_backup_config_def default_config_def example_world_def example_target_def
      backup_root_def path_join_def startswith_def)

lemma fmt_small:
  "fmt_d 0 = ''0''" "fmt_d 1 = ''1''" "fmt_d 2 = ''2''" "fmt_d 3 = ''3''" "fmt_d 8 = ''8''"
  "fmt_d 10 = ''10''"
  by (simp_all add: fmt_d_def digits.simps digit_char_def)

text \<open>
  C8. When the reference precedes the date, \<^verbatim>\<open>reldate\<close> returns the text its caller passes
  as \<^verbatim>\<open>clip\<close> (\<^verbatim>\<open>parse_line\<close> passes \<^verbatim>\<open>the future?\<close>). Otherwise, for a calendar
  difference of less than a year, it picks the tier from the months and days of the
  difference: months and days from one month on, days from seven days on, days and hours
  above one day, day and hours at one day, hours and minutes below.
\<close>

theorem reldate_tiers:
  "(dt_less w ref d = Some True \<longrightarrow> reldate w d ref clip = Inr clip)
   \<and> (dt_less w ref d = Some False \<and> years (dt_relativedelta w ref d) = 0 \<longrightarrow>
        (let rd = dt_relativedelta w ref d in
           (1 < months rd \<longrightarrow>
              reldate w d ref clip = Inr (fmt_d (months rd) @ '' months, '' @ fmt_d (days rd) @ '' days''))
         \<and> (months rd = 1 \<longrightarrow>
              reldate w d ref clip = Inr (fmt_d (months rd) @ '' month, '' @ fmt_d (days rd) @ '' days''))
         \<and> (months rd < 1 \<and> 7 \<le> days rd \<longrightarrow>
              reldate w d ref clip = Inr (fmt_d (days rd) @ '' days''))
         \<and> (months rd < 1 \<and> 1 < days rd \<and> days rd < 7 \<longrightarrow>
              reldate w d ref clip = Inr (fmt_d (days rd) @ '' days, '' @ fmt_d (hours rd) @ '' hours''))
         \<and> (months rd < 1 \<and> days rd = 1 \<longrightarrow>
              reldate w d ref clip = Inr (fmt_d (days rd) @ '' day, '' @ fmt_d (hours rd) @ '' hours''))
         \<and> (months rd < 1 \<and> days rd < 1 \<longrightarrow>
              reldate w d ref clip = Inr (fmt_d (hours rd) @ '' hours, '' @ fmt_d (minutes rd) @ '' minutes''))))"
  by (simp add: reldate_def Let_def)

lemma reldate_type_error: "dt_less w ref d = None \<Longrightarrow> reldate w d ref clip = Inl TypeError"
  by (simp add: reldate_def)

lemma gap_world_sel:
  "dt_relativedelta (gap_world rd) a b = rd"
  "dt_less (gap_world rd) a b = Some (a < b)"
  by (simp_all add: gap_world_def example_world_def)

text \<open>
  The differences below are what the date library reports for a gap of 40 days
  (April 1 to May 11), 8 days, 25 hours, 3 hours, 2 days and 3 hours, and 2 months and 3 days;
  the last input has its reference before the date.
\<close>

theorem reldate_tiers_witness:
  "reldate (gap_world \<lparr>years = 0, months = 1, days = 10, hours = 0, minutes = 0\<rparr>)
       ''20150401T000000Z'' ''20150511T000000Z'' ''the future?'' = Inr ''1 month, 10 days''
   \<and> reldate (gap_world \<lparr>years = 0, months = 0, days = 8, hours = 0, minutes = 0\<rparr>)
       ''20150401T000000Z'' ''20150409T000000Z'' ''the future?'' = Inr ''8 days''
   \<and> reldate (gap_world \<lparr>years = 0, months = 0, days = 1, hours = 1, minutes = 0\<rparr>)
       ''20150401T000000Z'' ''20150402T010000Z'' ''the future?'' = Inr ''1 day, 1 hours''
   \<and> reldate (gap_world \<lparr>years = 0, months = 0, days = 0, hours = 3, minutes = 0\<rparr>)
       ''20150401T000000Z'' ''20150401T030000Z'' ''the future?'' = Inr ''3 hours, 0 minutes''
   \<and> reldate (gap_world \<lparr>years = 0, months = 0, days = 2, hours = 3, minutes = 0\<rparr>)
       ''20150401T000000Z'' ''20150403T030000Z'' ''the future?'' = Inr ''2 days, 3 hours''
   \<and> reldate (gap_world \<lparr>years = 0, months = 2, days = 3, hours = 0, minutes = 0\<rparr>)
       ''20150401T000000Z'' ''20150604T000000Z'' ''the future?'' = Inr ''2 months, 3 days''
   \<and> reldate (gap_world \<lparr>years = 0, months = 0, days = 0, hours = 0, minutes = 0\<rparr>)
       ''20150402T000000Z'' ''20150401T000000Z'' ''the future?'' = Inr ''the future?''"
  using
    reldate_tiers [of "gap_world \<lparr>years = 0, months = 1, days = 10, hours = 0, minutes = 0\<rparr>"
       "''20150511T000000Z''" "''20150401T000000Z''" "''the future?''"]
    reldate_tiers [of "gap_world \<lparr>years = 0, months = 0, days = 8, hours = 0, minutes = 0\<rparr>"
       "''20150409T000000Z''" "''20150401T000000Z''" "''the future?''"]
    reldate_tiers [of "gap_world \<lparr>years = 0, months = 0, days = 1, hours = 1, minutes = 0\<rparr>"
       "''20150402T010000Z''" "''20150401T000000Z''" "''the future?''"]
    reldate_tiers [of "gap_world \<lparr>years = 0, months = 0, days = 0, hours = 3, minutes = 0\<rparr>"
       "''20150401T030000Z''" "''20150401T000000Z''" "''the future?''"]
    reldate_tiers [of "gap_world \<lparr>years = 0, months = 0, days = 2, hours = 3, minutes = 0\<rparr>"
       "''20150403T030000Z''" "''20150401T000000Z''" "''the future?''"]
    reldate_tiers [of "gap_world \<lparr>years = 0, months = 2, days = 3, hours = 0, minutes = 0\<rparr>"
       "''20150604T000000Z''" "''20150401T000000Z''" "''the future?''"]
    reldate_tiers [of "gap_world \<lparr>years = 0, months = 0, days = 0, hours = 0, minutes = 0\<rparr>"
       "''20150401T000000Z''" "''20150402T000000Z''" "''the future?''"]
  by (simp add: gap_world_sel fmt_small)

text \<open>
  The text returned for a date in the future is the caller's, here \<^verbatim>\<open>the future?\<close>; and a
  difference of one year and two days (January 1, 2015 to January 3, 2016), for which the
  library reports 1 year, 0 months, 2 days, is shown as \<^verbatim>\<open>2 days, 0 hours\<close>: the years of the
  difference are never read.
\<close>

theorem reldate_counterexample:
  "reldate (gap_world \<lparr>years = 0, months = 0, days = 0, hours = 0, minutes = 0\<rparr>)
       ''20150402T000000Z'' ''20150401T000000Z'' ''the future?'' \<noteq> Inr ''in the future''
   \<and> reldate (gap_world \<lparr>years = 1, months = 0, days = 2, hours = 0, minutes = 0\<rparr>)
       ''20150101T000000Z'' ''20160103T000000Z'' ''the future?'' = Inr ''2 days, 0 hours''"
  by (simp add: reldate_def gap_world_sel fmt_small)

lemma get_env_shape:
  assumes "get_env w = Inr e"
  shows "\<exists>p t. get_passphrase w = Inr p \<and> get_target_type (get_backup_config w) = Inr t
           \<and> (if t = ''s3''
               then \<exists>u pw. get_backup_config w ''target_user'' = Some u
                     \<and> get_backup_config w ''target_pass'' = Some pw
                     \<and> e = [(''PASSPHRASE'', YStr p), (''AWS_ACCESS_KEY_ID'', u),
                            (''AWS_SECRET_ACCESS_KEY'', pw)]
               else e = [(''PASSPHRASE'', YStr p)])"
  using assms
  by (auto simp: get_env_def Let_def split: sum.splits if_splits option.splits)

subsection \<open>Passphrase and status\<close>

lemma get_env_short:
  assumes "secret_key_line w = Some l" and "length (strip l) < 43"
  shows "get_env w = Inl PassphraseTooShort"
  using assms by (simp add: get_env_def get_passphrase_def Let_def)

lemma backup_status_env_error:
  assumes "get_env w = Inl e"
  shows "backup_status w s =
     (case get_backup_config w ''target'' of
        None \<Rightarrow> (Inl (KeyError ''target''), s) | Some v \<Rightarrow> (Inl e, s))"
  using assms
  by (simp add: backup_status_def Let_def bnd_def lift_def target_arg_def split: option.splits)

lemma should_force_full_env_error:
  assumes "get_env w = Inl e"
  shows "should_force_full w s =
     (case get_backup_config w ''target'' of
        None \<Rightarrow> (Inl (KeyError ''target''), s) | Some v \<Rightarrow> (Inl e, s))"
  using backup_status_env_error [OF assms, of s]
  by (simp add: should_force_full_def bnd_def lift_def split: option.splits)

lemma migrate_no_shell:
  assumes "migrate_old_backup w s = (r, s')"
  shows "\<exists>evs. trace s' = trace s @ evs \<and> (\<forall>cmd en ok. Shell cmd en ok \<notin> set evs)"
proof -
  from appends_migrate assms obtain evs where
    "trace s' = trace s @ evs"
    "list_all (\<lambda>ev. ev = Move (old_backup_dir w) (migrated_unencrypted_backup_dir w)
                \<or> ev = Rmtree (backup_dir w)) evs"
    by (rule appendsD)
  then show ?thesis by (auto simp: list_all_iff)
qed

text \<open>
  C2. Without the full flag, a key file whose first line (stripped) has fewer than 43
  characters makes the run fail before any subprocess is started, so before any service is
  stopped; the error is the one of \<^verbatim>\<open>get_passphrase\<close> whenever the lock is free, the
  migration of the old directory does not fail and the configuration has a target.
\<close>

theorem short_passphrase_aborts_before_services:
  assumes "secret_key_line w = Some l" and "length (strip l) < 43"
  shows "(\<exists>e. fst (run False w) = Inl e)
       \<and> (\<forall>cmd en ok. Shell cmd en ok \<notin> set (trace (snd (run False w))))
       \<and> (lock_free w \<and> fst (migrate_old_backup w (init_state w)) = Inr ()
            \<and> get_backup_config w ''target'' \<noteq> None
          \<longrightarrow> fst (run False w) = Inl PassphraseTooShort)"
proof (cases "lock_free w")
  case False
  then have "run False w = (Inl AlreadyRunning, init_state w)"
    by (simp add: run_def perform_backup_def andthen_def bnd_def exclusive_process_def raise_def)
  with False show ?thesis by (simp add: init_state_def)
next
  case True
  obtain r1 s1 where m: "migrate_old_backup w (init_state w) = (r1, s1)"
    by (cases "migrate_old_backup w (init_state w)")
  from migrate_no_shell [OF m] have t1: "\<forall>cmd en ok. Shell cmd en ok \<notin> set (trace s1)"
    by (auto simp: init_state_def)
  have env: "get_env w = Inl PassphraseTooShort" using assms by (rule get_env_short)
  show ?thesis
  proof (cases r1)
    case (Inl e)
    with True m have "run False w = (Inl e, s1)"
      by (simp add: run_def perform_backup_def andthen_def bnd_def exclusive_process_def
          return_def Let_def)
    with t1 m Inl show ?thesis by simp
  next
    case (Inr u)
    with True m have "run False w =
        (case get_backup_config w ''target'' of
           None \<Rightarrow> (Inl (KeyError ''target''), s1) | Some v \<Rightarrow> (Inl PassphraseTooShort, s1))"
      by (simp add: run_def perform_backup_def andthen_def bnd_def exclusive_process_def
          return_def Let_def should_force_full_env_error [OF env] split: option.splits)
    with t1 True m Inr show ?thesis
      by (auto split: option.splits)
  qed
qed

lemma parse_lines_no_rows:
  "\<forall>line \<in> set ls. \<not> startswith line '' full'' \<and> \<not> startswith line '' inc'' \<Longrightarrow>
   parse_lines w ls acc = Inr acc"
  by (induction ls arbitrary: acc) auto

lemma annotate_empty:
  "min_age config = Inr m \<Longrightarrow> dt_minus_days w (now w) m = Some d \<Longrightarrow>
   annotate w config [] = Inr []"
  by (simp add: annotate_def sorted_reverse_def predict_deleted_in_def)

lemma annotate_errors:
  "min_age config = Inl err \<Longrightarrow> annotate w config [] = Inl err"
  "min_age config = Inr m \<Longrightarrow> dt_minus_days w (now w) m = None \<Longrightarrow>
   annotate w config [] = Inl OverflowError"
  by (simp_all add: annotate_def sorted_reverse_def predict_deleted_in_def)

text \<open>
  C5. With a configured target and a usable environment, a status query that exits with a
  non-zero status makes \<^verbatim>\<open>backup_status\<close> fail with the error of the subprocess; a query
  that succeeds with no line starting with \<^verbatim>\<open> full\<close> or \<^verbatim>\<open> inc\<close> makes it return a
  status with an empty list of backups, when \<^verbatim>\<open>min_age_in_days\<close> is configured as an
  integer that the date arithmetic of line 114 accepts.
\<close>

theorem status_failure_or_empty_listing:
  assumes "get_backup_config w ''target'' = Some (YStr t)" and "get_env w = Inr e"
  shows "(run_process w (status_cmd w t) e = None \<longrightarrow>
            fst (backup_status w s) = Inl (CalledProcessError (status_cmd w t)))
       \<and> (\<forall>out m d. run_process w (status_cmd w t) e = Some out
             \<and> (\<forall>line \<in> set (split_char CHR 0x0A out).
                   \<not> startswith line '' full'' \<and> \<not> startswith line '' inc'')
             \<and> min_age (get_backup_config w) = Inr m
             \<and> dt_minus_days w (now w) m = Some d
             \<longrightarrow> fst (backup_status w s)
                   = Inr \<lparr>directory = path_join (backup_root w) ''encrypted'',
                          encpwfile = path_join (backup_root w) ''secret_key.txt'',
                          tz = tzname w, backups = []\<rparr>)"
  using assms
  by (auto simp: backup_status_def Let_def bnd_def lift_def target_arg_def arg_str_def shell_def
      return_def parse_lines_no_rows annotate_empty)

subsection \<open>The shape of a run\<close>

lemmas service_events = start_dovecot_def start_postfix_def stop_dovecot_def stop_postfix_def

lemma stop_services_cases:
  "stop_services w s =
     (case run_process w (service_cmd ''dovecot'' ''stop'') [] of
        None \<Rightarrow> (Inl (CalledProcessError (service_cmd ''dovecot'' ''stop'')),
                 s\<lparr>trace := trace s @ [stop_dovecot False]\<rparr>)
      | Some a \<Rightarrow>
          (case run_process w (service_cmd ''postfix'' ''stop'') [] of
             None \<Rightarrow> (Inl (CalledProcessError (service_cmd ''postfix'' ''stop'')),
                      s\<lparr>trace := trace s @ [stop_dovecot True, stop_postfix False]\<rparr>)
           | Some b \<Rightarrow> (Inr (), s\<lparr>trace := trace s @ [stop_dovecot True, stop_postfix True]\<rparr>)))"
  by (simp add: stop_services_def andthen_def bnd_def shell_call_def shell_def return_def
      service_events split: option.splits)

lemma start_services_cases:
  "start_services w s =
     (case run_process w (service_cmd ''dovecot'' ''start'') [] of
        None \<Rightarrow> (Inl (CalledProcessError (service_cmd ''dovecot'' ''start'')),
                 s\<lparr>trace := trace s @ [start_dovecot False]\<rparr>)
      | Some a \<Rightarrow>
          (case run_process w (service_cmd ''postfix'' ''start'') [] of
             None \<Rightarrow> (Inl (CalledProcessError (service_cmd ''postfix'' ''start'')),
                      s\<lparr>trace := trace s @ [start_dovecot True, start_postfix False]\<rparr>)
           | Some b \<Rightarrow> (Inr (), s\<lparr>trace := trace s @ [start_dovecot True, start_postfix True]\<rparr>)))"
  by (simp add: start_services_def andthen_def bnd_def shell_call_def shell_def return_def
      service_events split: option.splits)

text \<open>A call of the service manager is an event of none of the three groups of steps.\<close>

lemma service_call_unclassified:
  "\<not> prepare_event w (Shell (service_cmd name verb) e ok)"
  "\<not> snapshot_event (Shell (service_cmd name verb) e ok)"
  "\<not> later_event w (Shell (service_cmd name verb) e ok)"
  by (simp_all add: prepare_event_def snapshot_event_def later_event_def service_cmd_def)

lemma appends_snapshot_body: "appends snapshot_event (snapshot_body w config b)"
  unfolding snapshot_body_def run_duplicity_def
  by (intro appends_intros) (simp_all add: snapshot_event_def backup_cmd_def)

lemma snapshot_body_returns: "fst (snapshot_body w config b s) = Inr ()"
  by (simp add: snapshot_body_def try_except_def emit_def split: prod.splits sum.splits)

lemma appends_prepare:
  "appends (prepare_event w)
     (andthen (exclusive_process w)
        (andthen (migrate_old_backup w)
           (if fb then return True else should_force_full w)))"
proof -
  have 1: "appends (prepare_event w) (exclusive_process w)"
    by (simp add: exclusive_process_def appends_intros)
  have 2: "appends (prepare_event w) (migrate_old_backup w)"
    by (rule appends_mono [OF appends_migrate]) (auto simp: prepare_event_def)
  have 3: "appends (prepare_event w) (should_force_full w)"
    by (rule appends_mono [OF appends_should_force_full])
       (auto simp: prepare_event_def status_cmd_def)
  show ?thesis
    by (intro appends_andthen 1 2) (simp add: 3 appends_return)
qed

lemma perform_backup_phases:
  "perform_backup fb w =
     bnd (andthen (exclusive_process w)
            (andthen (migrate_old_backup w)
               (if fb then return True else should_force_full w)))
         (\<lambda>full_backup.
            andthen (stop_services w)
              (andthen (try_finally (snapshot_body w (get_backup_config w) full_backup)
                          (start_services w))
                       (later_steps w (get_backup_config w))))"
  by (rule ext)
     (simp add: perform_backup_def Let_def andthen_def bnd_def snapshot_and_restart_def
        snapshot_body_def split: prod.splits sum.splits)

lemma appends_if: "appends P m \<Longrightarrow> appends P k \<Longrightarrow> appends P (if c then m else k)"
  by simp

lemma appends_delete_migrated:
  "P (Rmtree (migrated_unencrypted_backup_dir w)) \<Longrightarrow> appends P (delete_migrated w)"
proof -
  assume p: "P (Rmtree (migrated_unencrypted_backup_dir w))"
  have "delete_migrated w =
      (\<lambda>s. if isdir (migrated_unencrypted_backup_dir w) s
           then shutil_rmtree (migrated_unencrypted_backup_dir w) s else return () s)"
    by (rule ext) (simp add: delete_migrated_def)
  then show ?thesis
    by (simp add: appends_state_if appends_intros p)
qed

lemma appends_later_steps: "appends (later_event w) (later_steps w config)"
  unfolding later_steps_def remove_old_def cleanup_def fix_ownership_def post_hook_def
    wait_services_def
  by (intro appends_intros appends_if appends_delete_migrated)
     (simp_all add: later_event_def remove_cmd_def cleanup_cmd_def chown_cmd_def post_cmd_def)

text \<open>
  C1. The trace of every run is one of six shapes. The events of the preparation (migration
  and status query) come first. A run that stops both services goes on with the events of
  the snapshot step, whether the snapshot command succeeds or raises, and then issues the
  start of dovecot; when that start fails, the run ends there with its error, and the start
  of postfix is never issued; when it succeeds the start of postfix is issued, and when that
  fails the run ends with its error. Only when both starts have succeeded do the events of
  the later steps (removal of the migrated directory, pruning, cleanup, change of ownership,
  post-backup script, wait) follow, and only such a run returns normally.
\<close>

theorem services_restarted_before_later_steps:
  assumes "run fb w = (r, s)"
  shows "\<exists>pre. list_all (prepare_event w) pre \<and>
     (trace s = pre \<and> r \<noteq> Inr ()
      \<or> trace s = pre @ [stop_dovecot False]
          \<and> r = Inl (CalledProcessError (service_cmd ''dovecot'' ''stop''))
      \<or> trace s = pre @ [stop_dovecot True, stop_postfix False]
          \<and> r = Inl (CalledProcessError (service_cmd ''postfix'' ''stop''))
      \<or> (\<exists>mid. list_all snapshot_event mid \<and>
            (trace s = pre @ [stop_dovecot True, stop_postfix True] @ mid
                         @ [start_dovecot False]
               \<and> r = Inl (CalledProcessError (service_cmd ''dovecot'' ''start''))
             \<or> trace s = pre @ [stop_dovecot True, stop_postfix True] @ mid
                           @ [start_dovecot True, start_postfix False]
               \<and> r = Inl (CalledProcessError (service_cmd ''postfix'' ''start''))
             \<or> (\<exists>post. list_all (later_event w) post \<and>
                   trace s = pre @ [stop_dovecot True, stop_postfix True] @ mid
                               @ [start_dovecot True, start_postfix True] @ post))))"
proof -
  let ?prep = "andthen (exclusive_process w)
        (andthen (migrate_old_backup w) (if fb then return True else should_force_full w))"
  let ?s0 = "init_state w"
  obtain r1 s1 where p: "?prep ?s0 = (r1, s1)" by (cases "?prep ?s0")
  from appends_prepare p obtain a where
    a: "trace s1 = trace ?s0 @ a" "list_all (prepare_event w) a"
    by (rule appendsD)
  then have a': "trace s1 = a" by (simp add: init_state_def)
  have run: "perform_backup fb w ?s0 = (r, s)" using assms by (simp add: run_def)
  show ?thesis
  proof (cases r1)
    case (Inl e)
    with p run have "r = Inl e" "s = s1"
      by (simp_all add: perform_backup_phases bnd_def)
    with a' have f: "trace s = a \<and> r \<noteq> Inr ()" by simp
    show ?thesis
      by (rule exI [of _ a], rule conjI, rule a(2), rule disjI1, rule f)
  next
    case (Inr b)
    let ?rest = "andthen (try_finally (snapshot_body w (get_backup_config w) b) (start_services w))
                       (later_steps w (get_backup_config w))"
    from p Inr run have run2: "andthen (stop_services w) ?rest s1 = (r, s)"
      by (simp add: perform_backup_phases bnd_def)
    show ?thesis
    proof (cases "run_process w (service_cmd ''dovecot'' ''stop'') []")
      case None
      with run2 have f: "trace s = a @ [stop_dovecot False]
          \<and> r = Inl (CalledProcessError (service_cmd ''dovecot'' ''stop''))"
        by (auto simp: andthen_def bnd_def stop_services_cases a')
      show ?thesis
        by (rule exI [of _ a], rule conjI, rule a(2), rule disjI2, rule disjI1, rule f)
    next
      case (Some o1)
      show ?thesis
      proof (cases "run_process w (service_cmd ''postfix'' ''stop'') []")
        case None
        with Some run2 have f: "trace s = a @ [stop_dovecot True, stop_postfix False]
            \<and> r = Inl (CalledProcessError (service_cmd ''postfix'' ''stop''))"
          by (auto simp: andthen_def bnd_def stop_services_cases a')
        show ?thesis
          by (rule exI [of _ a], rule conjI, rule a(2), rule disjI2, rule disjI2, rule disjI1,
              rule f)
      next
        case (Some o2)
        let ?s2 = "s1\<lparr>trace := trace s1 @ [stop_dovecot True, stop_postfix True]\<rparr>"
        from \<open>run_process w (service_cmd ''dovecot'' ''stop'') [] = Some o1\<close> Some run2
        have run3: "?rest ?s2 = (r, s)"
          by (simp add: andthen_def bnd_def stop_services_cases)
        obtain r3 s3 where sb: "snapshot_body w (get_backup_config w) b ?s2 = (r3, s3)"
          by (cases "snapshot_body w (get_backup_config w) b ?s2")
        from appends_snapshot_body sb obtain mid where
          mid: "trace s3 = trace ?s2 @ mid" "list_all snapshot_event mid"
          by (rule appendsD)
        have r3: "r3 = Inr ()" using snapshot_body_returns [of w "get_backup_config w" b ?s2] sb
          by simp
        have b: "trace s3 = a @ [stop_dovecot True, stop_postfix True] @ mid"
          using mid a' by simp
        let ?stopped = "\<exists>mid. list_all snapshot_event mid \<and>
            (trace s = a @ [stop_dovecot True, stop_postfix True] @ mid
                         @ [start_dovecot False]
               \<and> r = Inl (CalledProcessError (service_cmd ''dovecot'' ''start''))
             \<or> trace s = a @ [stop_dovecot True, stop_postfix True] @ mid
                           @ [start_dovecot True, start_postfix False]
               \<and> r = Inl (CalledProcessError (service_cmd ''postfix'' ''start''))
             \<or> (\<exists>post. list_all (later_event w) post \<and>
                   trace s = a @ [stop_dovecot True, stop_postfix True] @ mid
                               @ [start_dovecot True, start_postfix True] @ post))"
        have st: ?stopped
        proof (cases "run_process w (service_cmd ''dovecot'' ''start'') []")
          case None
          with run3 sb r3
          have f: "trace s = a @ [stop_dovecot True, stop_postfix True] @ mid
                      @ [start_dovecot False]
              \<and> r = Inl (CalledProcessError (service_cmd ''dovecot'' ''start''))"
            by (auto simp: andthen_def bnd_def try_finally_def start_services_cases b)
          show ?thesis
            by (rule exI [of _ mid], rule conjI, rule mid(2), rule disjI1, rule f)
        next
          case (Some o3)
          note d = this
          show ?thesis
          proof (cases "run_process w (service_cmd ''postfix'' ''start'') []")
            case None
            with d run3 sb r3
            have f: "trace s = a @ [stop_dovecot True, stop_postfix True] @ mid
                      @ [start_dovecot True, start_postfix False]
                \<and> r = Inl (CalledProcessError (service_cmd ''postfix'' ''start''))"
              by (auto simp: andthen_def bnd_def try_finally_def start_services_cases b)
            show ?thesis
              by (rule exI [of _ mid], rule conjI, rule mid(2), rule disjI2, rule disjI1, rule f)
          next
            case (Some o4)
            let ?s4 = "s3\<lparr>trace := trace s3 @ [start_dovecot True, start_postfix True]\<rparr>"
            from d Some run3 sb r3 have run4: "later_steps w (get_backup_config w) ?s4 = (r, s)"
              by (simp add: andthen_def bnd_def try_finally_def start_services_cases)
            from appends_later_steps run4 obtain c where
              c: "trace s = trace ?s4 @ c" "list_all (later_event w) c"
              by (rule appendsD)
            have t: "trace s = a @ [stop_dovecot True, stop_postfix True] @ mid
                      @ [start_dovecot True, start_postfix True] @ c"
              using c(1) b by simp
            have g: "\<exists>post. list_all (later_event w) post \<and>
                       trace s = a @ [stop_dovecot True, stop_postfix True] @ mid
                                   @ [start_dovecot True, start_postfix True] @ post"
              by (rule exI [of _ c], rule conjI, rule c(2), rule t)
            show ?thesis
              by (rule exI [of _ mid], rule conjI, rule mid(2), rule disjI2, rule disjI2, rule g)
          qed
        qed
        show ?thesis
          by (rule exI [of _ a], rule conjI, rule a(2), rule disjI2, rule disjI2, rule disjI2,
              rule st)
      qed
    qed
  qed
qed

subsection \<open>Command lines and environments\<close>

lemma appends_bnd_lift:
  assumes "\<And>x. r = Inr x \<Longrightarrow> appends P (f x)"
  shows "appends P (bnd (lift r) f)"
proof (cases r)
  case (Inl e)
  then show ?thesis by (simp add: appends_def bnd_def lift_def)
next
  case (Inr x)
  from assms [OF Inr] have "appends P (f x)" .
  moreover have "bnd (lift r) f = f x" using Inr by (rule_tac ext) (simp add: bnd_def lift_def)
  ultimately show ?thesis by simp
qed

lemma config_without_credentials:
  "k \<noteq> ''target_user'' \<Longrightarrow> k \<noteq> ''target_pass'' \<Longrightarrow>
   get_backup_config (without_credentials w) k = get_backup_config w k"
  by (cases "custom_yaml w")
     (simp_all add: get_backup_config_def without_credentials_def default_config_def
        backup_root_def)

lemma cmds_without_credentials:
  "status_cmd (without_credentials w) t = status_cmd w t"
  "backup_cmd (without_credentials w) b t = backup_cmd w b t"
  "remove_cmd (without_credentials w) m t = remove_cmd w m t"
  "cleanup_cmd (without_credentials w) t = cleanup_cmd w t"
  "post_cmd (without_credentials w) t = post_cmd w t"
  "verify_cmd (without_credentials w) t = verify_cmd w t"
  "chown_cmd (without_credentials w) = chown_cmd w"
  by (simp_all add: without_credentials_def status_cmd_def backup_cmd_def remove_cmd_def
      cleanup_cmd_def post_cmd_def verify_cmd_def chown_cmd_def backup_root_def
      backup_cache_dir_def backup_dir_def post_script_def)

lemma min_age_without_credentials:
  "min_age (get_backup_config (without_credentials w)) = min_age (get_backup_config w)"
  by (simp add: min_age_def config_without_credentials)

lemma command_lines_target:
  assumes "target_arg (get_backup_config w) = Inr tv" and "arg_str tv = Inr t"
  shows "status_cmd w t \<in> command_lines (without_credentials w)"
    and "backup_cmd w b t \<in> command_lines (without_credentials w)"
    and "cleanup_cmd w t \<in> command_lines (without_credentials w)"
    and "post_cmd w t \<in> command_lines (without_credentials w)"
    and "verify_cmd w t \<in> command_lines (without_credentials w)"
    and "min_age (get_backup_config w) = Inr m \<Longrightarrow>
         remove_cmd w m t \<in> command_lines (without_credentials w)"
proof -
  from assms have t: "get_backup_config w ''target'' = Some (YStr t)"
    by (auto simp: target_arg_def arg_str_def split: option.splits yval.splits)
  then have t': "get_backup_config (without_credentials w) ''target'' = Some (YStr t)"
    by (simp add: config_without_credentials)
  show "status_cmd w t \<in> command_lines (without_credentials w)"
    by (simp add: command_lines_def t' cmds_without_credentials)
  show "backup_cmd w b t \<in> command_lines (without_credentials w)"
    by (cases b) (simp_all add: command_lines_def t' cmds_without_credentials)
  show "cleanup_cmd w t \<in> command_lines (without_credentials w)"
    by (simp add: command_lines_def t' cmds_without_credentials)
  show "post_cmd w t \<in> command_lines (without_credentials w)"
    by (simp add: command_lines_def t' cmds_without_credentials)
  show "verify_cmd w t \<in> command_lines (without_credentials w)"
    by (simp add: command_lines_def t' cmds_without_credentials)
  show "remove_cmd w m t \<in> command_lines (without_credentials w)"
    if "min_age (get_backup_config w) = Inr m"
    using that
    by (simp add: command_lines_def t' cmds_without_credentials min_age_without_credentials)
qed

lemma command_lines_fixed:
  "service_cmd ''dovecot'' ''stop'' \<in> command_lines w'"
  "service_cmd ''postfix'' ''stop'' \<in> command_lines w'"
  "service_cmd ''dovecot'' ''start'' \<in> command_lines w'"
  "service_cmd ''postfix'' ''start'' \<in> command_lines w'"
  "chown_cmd w \<in> command_lines (without_credentials w)"
  by (simp_all add: command_lines_def cmds_without_credentials)

lemma argv_ok_simps:
  "argv_ok w (Move a b)" "argv_ok w (Rmtree p)" "argv_ok w (LogInfo msg)"
  "argv_ok w (LogWarning msg err)" "argv_ok w (WaitForService port)"
  "argv_ok w (Shell cmd en ok) =
     (cmd \<in> command_lines (without_credentials w) \<and> (en = [] \<or> get_env w = Inr en))"
  by (simp_all add: argv_ok_def)

lemma appends_target_shell:
  assumes "\<And>t tv. target_arg config = Inr tv \<Longrightarrow> arg_str tv = Inr t \<Longrightarrow>
             cmd t \<in> command_lines (without_credentials w)"
  shows "appends (argv_ok w)
     (bnd (lift (target_arg config)) (\<lambda>tv.
      bnd (lift (get_env w)) (\<lambda>e.
      bnd (lift (arg_str tv)) (\<lambda>target. shell_call w (cmd target) e))))"
  by (intro appends_bnd_lift appends_shell_call) (simp_all add: argv_ok_simps assms)

lemma argv_backup_status: "appends (argv_ok w) (backup_status w)"
  unfolding backup_status_def Let_def
  by (intro appends_bnd_lift appends_bnd appends_shell appends_return)
     (simp_all add: argv_ok_simps command_lines_target)

lemma argv_should_force_full: "appends (argv_ok w) (should_force_full w)"
  unfolding should_force_full_def
  by (intro appends_bnd appends_lift argv_backup_status)

lemma argv_migrate: "appends (argv_ok w) (migrate_old_backup w)"
  by (rule appends_mono [OF appends_migrate]) (auto simp: argv_ok_simps)

lemma argv_services:
  "appends (argv_ok w) (stop_services w)" "appends (argv_ok w) (start_services w)"
  unfolding stop_services_def start_services_def
  by (intro appends_andthen appends_shell_call; simp add: argv_ok_simps command_lines_fixed)+

lemma argv_snapshot: "appends (argv_ok w) (snapshot_and_restart w (get_backup_config w) b)"
  unfolding snapshot_and_restart_def run_duplicity_def
  by (intro appends_try_finally appends_try_except appends_bnd_lift appends_andthen
        appends_shell_call appends_emit argv_services)
     (simp_all add: argv_ok_simps command_lines_target)

lemma argv_later_steps: "appends (argv_ok w) (later_steps w (get_backup_config w))"
  unfolding later_steps_def remove_old_def cleanup_def fix_ownership_def post_hook_def
    wait_services_def
  by (intro appends_andthen appends_try_except appends_bnd_lift appends_if
        appends_delete_migrated appends_shell_call appends_emit appends_return)
     (simp_all add: argv_ok_simps command_lines_target command_lines_fixed)

lemma argv_perform_backup: "appends (argv_ok w) (perform_backup fb w)"
  unfolding perform_backup_def Let_def exclusive_process_def
  by (intro appends_andthen appends_bnd appends_if appends_return appends_raise
        argv_migrate argv_should_force_full argv_services argv_snapshot argv_later_steps)

lemma argv_verification: "appends (argv_ok w) (run_duplicity_verification w)"
  unfolding run_duplicity_verification_def Let_def
  by (intro appends_bnd_lift appends_shell_call)
     (simp_all add: argv_ok_simps command_lines_target)

lemma appends_from_empty:
  assumes "appends P m" and "trace s = []"
  shows "list_all P (trace (snd (m s)))"
proof -
  obtain r s' where m: "m s = (r, s')" by (cases "m s")
  from assms(1) m obtain evs where "trace s' = trace s @ evs" "list_all P evs"
    by (rule appendsD)
  with assms(2) m show ?thesis by simp
qed

text \<open>
  C10. The environment built by \<^verbatim>\<open>get_env\<close> holds the passphrase only, unless the scheme
  of the target is exactly \<^verbatim>\<open>s3\<close>; then it also holds the configured user and password
  as the two AWS variables. Every subprocess of a backup run, of the status query and of the
  verification is started with an argument list that the script also builds from the
  configuration without its credentials, and with an environment that is empty or the one
  of \<^verbatim>\<open>get_env\<close>.
\<close>

theorem credentials_only_in_s3_environment:
  "(get_env w = Inr e \<longrightarrow>
      (\<exists>p t. get_passphrase w = Inr p \<and> get_target_type (get_backup_config w) = Inr t
         \<and> (if t = ''s3''
             then \<exists>u pw. get_backup_config w ''target_user'' = Some u
                   \<and> get_backup_config w ''target_pass'' = Some pw
                   \<and> e = [(''PASSPHRASE'', YStr p), (''AWS_ACCESS_KEY_ID'', u),
                          (''AWS_SECRET_ACCESS_KEY'', pw)]
             else e = [(''PASSPHRASE'', YStr p)])))
   \<and> (Shell cmd en ok \<in> set (trace (snd (run fb w)))
        \<or> Shell cmd en ok \<in> set (trace (snd (backup_status w (init_state w))))
        \<or> Shell cmd en ok \<in> set (trace (snd (run_duplicity_verification w (init_state w))))
      \<longrightarrow> cmd \<in> command_lines (without_credentials w) \<and> (en = [] \<or> get_env w = Inr en))"
proof -
  have i: "trace (init_state w) = []" by (simp add: init_state_def)
  have "argv_ok w (Shell cmd en ok)"
    if "Shell cmd en ok \<in> set (trace (snd (run fb w)))
        \<or> Shell cmd en ok \<in> set (trace (snd (backup_status w (init_state w))))
        \<or> Shell cmd en ok \<in> set (trace (snd (run_duplicity_verification w (init_state w))))"
    using that appends_from_empty [OF argv_perform_backup i, of w fb]
      appends_from_empty [OF argv_backup_status i, of w]
      appends_from_empty [OF argv_verification i, of w]
    by (auto simp: list_all_iff run_def)
  then show ?thesis
    using get_env_shape [of w e] by (simp add: argv_ok_simps)
qed

subsection \<open>Runs of the example box\<close>

lemmas worlds = dovecot_start_fails_def short_key_world_def status_fails_world_def
  legacy_world_def s3_world_def rsync_world_def

lemma run_example:
  "run True example_world =
   (Inr (), \<lparr>trace =
      [stop_dovecot True, stop_postfix True,
       Shell (backup_cmd example_world True example_target) example_env True,
       LogInfo ''Backup successful'',
       start_dovecot True, start_postfix True,
       Shell (remove_cmd example_world 3 example_target) example_env True,
       Shell (cleanup_cmd example_world example_target) example_env True,
       Shell (chown_cmd example_world) [] True,
       WaitForService 25, WaitForService 993],
     dirs = {''/home/user-data/backup/encrypted''}\<rparr>)"
  by (simp add: model service_events)

text \<open>
  On the example box with the full flag nothing precedes the stop of the services, the
  snapshot step is followed by both starts, and the later steps come after them.
\<close>

theorem services_restarted_before_later_steps_witness:
  "\<exists>pre. list_all (prepare_event example_world) pre \<and>
     (\<exists>mid. list_all snapshot_event mid \<and>
        (\<exists>post. list_all (later_event example_world) post \<and>
           trace (snd (run True example_world))
             = pre @ [stop_dovecot True, stop_postfix True] @ mid
                   @ [start_dovecot True, start_postfix True] @ post))"
  using services_restarted_before_later_steps [OF run_example]
  by (simp add: run_example)

text \<open>
  C1, where it fails as stated: the snapshot succeeds, the start of dovecot exits with a
  non-zero status, and the run ends with that error. The start of postfix is never issued.
\<close>

theorem dovecot_start_failure_leaves_postfix_stopped:
  "run True dovecot_start_fails =
   (Inl (CalledProcessError (service_cmd ''dovecot'' ''start'')),
    \<lparr>trace =
      [stop_dovecot True, stop_postfix True,
       Shell (backup_cmd example_world True example_target) example_env True,
       LogInfo ''Backup successful'',
       start_dovecot False],
     dirs = {''/home/user-data/backup/encrypted''}\<rparr>)"
  by (simp add: model service_events worlds)

text \<open>
  C2, where it fails as stated: with the full flag, \<^verbatim>\<open>should_force_full\<close> is not called,
  so the key file with a first line of 20 characters is first read inside the \<^verbatim>\<open>try\<close>
  block, after both services have been stopped. The error is logged three times and the run
  returns normally.
\<close>

theorem full_flag_stops_services_before_reading_passphrase:
  "run True short_key_world =
   (Inr (), \<lparr>trace =
      [stop_dovecot True, stop_postfix True,
       LogWarning ''Backup failed: '' PassphraseTooShort,
       start_dovecot True, start_postfix True,
       LogWarning ''Removal of old backups failed: '' PassphraseTooShort,
       LogWarning ''Cleanup of backups failed: '' PassphraseTooShort,
       Shell (chown_cmd example_world) [] True,
       WaitForService 25, WaitForService 993],
     dirs = {''/home/user-data/backup/encrypted''}\<rparr>)"
  by (simp add: model service_events worlds)

lemma short_key_facts:
  "secret_key_line short_key_world = Some ''12345678901234567890''"
  "length (strip ''12345678901234567890'') < 43"
  "lock_free short_key_world"
  "fst (migrate_old_backup short_key_world (init_state short_key_world)) = Inr ()"
  "get_backup_config short_key_world ''target'' \<noteq> None"
  by (simp_all add: model worlds)

text \<open>
  Without the full flag the same box fails with the error of \<^verbatim>\<open>get_passphrase\<close> and
  never calls the service manager.
\<close>

theorem short_passphrase_aborts_before_services_witness:
  "fst (run False short_key_world) = Inl PassphraseTooShort
   \<and> stop_dovecot True \<notin> set (trace (snd (run False short_key_world)))
   \<and> stop_dovecot False \<notin> set (trace (snd (run False short_key_world)))"
  using short_passphrase_aborts_before_services [OF short_key_facts(1,2)] short_key_facts(3-5)
  by (simp add: service_events)

text \<open>
  C5, where it fails as stated: the status query of the example box exits with status 0 and
  prints nothing, and \<^verbatim>\<open>backup_status\<close> returns a status with no backups.
\<close>

theorem empty_listing_is_not_an_error:
  "backup_status example_world (init_state example_world) =
   (Inr \<lparr>directory = ''/home/user-data/backup/encrypted'',
         encpwfile = ''/home/user-data/backup/secret_key.txt'', tz = ''UTC'', backups = []\<rparr>,
    \<lparr>trace = [Shell (status_cmd example_world example_target) example_env True],
     dirs = {''/home/user-data/backup/encrypted''}\<rparr>)"
  by (rule empty_status)

lemma status_facts:
  "get_backup_config example_world ''target'' = Some (YStr example_target)"
  "get_env example_world = Inr example_env"
  "get_backup_config status_fails_world ''target'' = Some (YStr example_target)"
  "get_env status_fails_world = Inr example_env"
  "run_process status_fails_world c e = None"
  "run_process example_world c e = Some []"
  "min_age (get_backup_config example_world) = Inr 3"
  "status_cmd status_fails_world t = status_cmd example_world t"
  "dt_minus_days example_world (now example_world) 3 = Some ''20150104T000000Z''"
  by (simp_all add: model worlds)

text \<open>
  A failing status query gives the error of the subprocess; an empty listing gives the empty
  list of backups.
\<close>

theorem status_failure_or_empty_listing_witness:
  "fst (backup_status status_fails_world (init_state status_fails_world))
     = Inl (CalledProcessError (status_cmd example_world example_target))
   \<and> fst (backup_status example_world (init_state example_world))
     = Inr \<lparr>directory = path_join (backup_root example_world) ''encrypted'',
            encpwfile = path_join (backup_root example_world) ''secret_key.txt'',
            tz = tzname example_world, backups = []\<rparr>"
  using status_failure_or_empty_listing [OF status_facts(3,4), of "init_state status_fails_world"]
    status_failure_or_empty_listing [OF status_facts(1,2), of "init_state example_world"]
  by (simp add: status_facts split_char_def startswith_def)

text \<open>
  C9. The old unencrypted directory is present and the snapshot command exits with a non-zero
  status. The error is caught and logged, the services are started, and the relocated
  directory is deleted all the same: after the run neither the old directory nor the
  relocated one exists, and no snapshot was produced.
\<close>

theorem migrated_directory_deleted_after_failed_snapshot:
  "fst (run True legacy_world) = Inr ()
   \<and> trace (snd (run True legacy_world)) =
      [Move ''/home/user-data/backup/duplicity'' ''/home/user-data/migrated_unencrypted_backup'',
       Rmtree ''/home/user-data/backup/encrypted'',
       stop_dovecot True, stop_postfix True,
       Shell (backup_cmd example_world True example_target) example_env False,
       LogWarning ''Backup failed: ''
         (CalledProcessError (backup_cmd example_world True example_target)),
       start_dovecot True, start_postfix True,
       Rmtree ''/home/user-data/migrated_unencrypted_backup'',
       Shell (remove_cmd example_world 3 example_target) example_env True,
       Shell (cleanup_cmd example_world example_target) example_env True,
       Shell (chown_cmd example_world) [] True,
       WaitForService 25, WaitForService 993]
   \<and> ''/home/user-data/migrated_unencrypted_backup'' \<notin> dirs (snd (run True legacy_world))
   \<and> ''/home/user-data/backup/duplicity'' \<notin> dirs (snd (run True legacy_world))"
  by (simp add: model service_events worlds)

lemma s3_facts:
  "get_env s3_world = Inr s3_env"
  "get_env rsync_world = Inr example_env"
  "trace (snd (run_duplicity_verification s3_world (init_state s3_world)))
     = [Shell (verify_cmd s3_world ''s3://s3.amazonaws.com/bucket/box'') s3_env True]"
  by (simp_all add: model worlds s3_env_def run_duplicity_verification_def verify_cmd_def)

text \<open>
  A box that backs up to S3 passes its credentials in the environment of the verification
  command, whose argument list is built without them; a box with the same credentials and an
  rsync target passes the passphrase only.
\<close>

theorem credentials_only_in_s3_environment_witness:
  "get_env s3_world = Inr s3_env
   \<and> get_env rsync_world = Inr example_env
   \<and> get_target_type (get_backup_config rsync_world) = Inr ''rsync''
   \<and> verify_cmd s3_world ''s3://s3.amazonaws.com/bucket/box''
        \<in> command_lines (without_credentials s3_world)
   \<and> get_backup_config (without_credentials s3_world) ''target_pass'' = None"
  using credentials_only_in_s3_environment
      [of s3_world s3_env "verify_cmd s3_world ''s3://s3.amazonaws.com/bucket/box''" s3_env True True]
    credentials_only_in_s3_environment [of rsync_world example_env "[]" "[]" True True]
  by (simp add: s3_facts)
     (simp add: get_target_type_def get_backup_config_def worlds without_credentials_def
        split_char_def example_world_def)

end
